theory Spec2Isabelle
  imports Main "HOL-Library.Word"
begin

section \<open>Go primitives used by the program\<close>

text \<open>
  A Go string is a sequence of bytes; \<open>len\<close> counts bytes. A run-time panic ends the
  program: it is the left summand of every function that can panic.
\<close>

datatype panic = SliceBoundsOutOfRange | IndexOutOfRange

text \<open>The slice expression \<open>s[lo:hi]\<close> on a string: it panics unless \<open>0 \<le> lo \<le> hi \<le> len(s)\<close>.\<close>

definition slice :: "string \<Rightarrow> int \<Rightarrow> int \<Rightarrow> panic + string" where
  "slice s lo hi =
     (if 0 \<le> lo \<and> lo \<le> hi \<and> hi \<le> int (length s)
      then Inr (take (nat (hi - lo)) (drop (nat lo) s))
      else Inl SliceBoundsOutOfRange)"

text \<open>The index expression \<open>s[i]\<close> on a string.\<close>

definition index :: "string \<Rightarrow> int \<Rightarrow> panic + char" where
  "index s i = (if 0 \<le> i \<and> i < int (length s) then Inr (s ! nat i) else Inl IndexOutOfRange)"

text \<open>The verb \<open>%d\<close> of package fmt on an integer: decimal digits, with a minus sign.\<close>

definition digit_char :: "nat \<Rightarrow> char" where
  "digit_char d = ''0123456789'' ! d"

fun digits :: "nat \<Rightarrow> string" where
  "digits n = (if n < 10 then [digit_char n] else digits (n div 10) @ [digit_char (n mod 10)])"

declare digits.simps [simp del]

definition itoa :: "int \<Rightarrow> string" where
  "itoa i = (if i < 0 then CHR ''-'' # digits (nat (- i)) else digits (nat i))"

text \<open>\<^verbatim>\<open>strings.Join(elems, sep)\<close>.\<close>

fun Join :: "string list \<Rightarrow> string \<Rightarrow> string" where
  "Join [] sep = []"
| "Join [x] sep = x"
| "Join (x # y # ys) sep = x @ sep @ Join (y # ys) sep"

section \<open>Package output: the helpers\<close>

text \<open>
  \<^verbatim>\<open>func Truncate(s string, maxLen int) string\<close> (internal/output/output.go):
  \<^verbatim>\<open>if len(s) <= maxLen { return s }; if maxLen <= 3 { return s[:maxLen] }; return s[:maxLen-3] + "..."\<close>
\<close>

definition Truncate :: "string \<Rightarrow> int \<Rightarrow> panic + string" where
  "Truncate s maxLen =
     (if int (length s) \<le> maxLen then Inr s
      else if maxLen \<le> 3 then slice s 0 maxLen
      else (case slice s 0 (maxLen - 3) of
              Inl p \<Rightarrow> Inl p
            | Inr t \<Rightarrow> Inr (t @ ''...'')))"

subsection \<open>float64, as far as the program uses it\<close>

text \<open>
  An IEEE-754 binary64 value: \<open>Finite neg m e\<close> is \<open>(-1)^neg * m * 2^e\<close>. Every
  operation below computes the exact rational result and rounds it to the nearest
  value with a 53-bit significand, ties to even, as the hardware does.
\<close>

datatype float64 = Finite bool nat int | Infinity bool | NaN

fun bitlen :: "nat \<Rightarrow> nat" where
  "bitlen n = (if n = 0 then 0 else Suc (bitlen (n div 2)))"

declare bitlen.simps [simp del]

text \<open>\<open>a / b\<close> rounded to the nearest integer, ties to the even one.\<close>

definition rhe_div :: "nat \<Rightarrow> nat \<Rightarrow> nat" where
  "rhe_div a b =
     (let q = a div b; r = a mod b
      in if 2 * r < b then q
         else if b < 2 * r then q + 1
         else if even q then q else q + 1)"

text \<open>
  The binary64 nearest to \<open>num / den\<close> (\<open>den > 0\<close>): \<open>fl\<close> is the floor of the binary
  logarithm of the quotient, the exponent is held at \<open>-1074\<close> for subnormal results, and
  a result of \<open>2^1024\<close> or more is infinite.
\<close>

definition round_float64 :: "bool \<Rightarrow> nat \<Rightarrow> nat \<Rightarrow> float64" where
  "round_float64 neg num den =
     (if num = 0 then Finite neg 0 0
      else
        let l = int (bitlen num) - int (bitlen den);
            fl = (if (if 0 \<le> l then den * 2 ^ nat l \<le> num else den \<le> num * 2 ^ nat (- l))
                  then l else l - 1);
            e = max (fl - 52) (- 1074);
            m = (if 0 \<le> e then rhe_div num (den * 2 ^ nat e)
                 else rhe_div (num * 2 ^ nat (- e)) den)
        in if 1024 < e + int (bitlen m) then Infinity neg else Finite neg m e)"

text \<open>The conversion \<open>float64(i)\<close> of an integer.\<close>

definition float64_of_int :: "int \<Rightarrow> float64" where
  "float64_of_int i = round_float64 (i < 0) (nat \<bar>i\<bar>) 1"

text \<open>The quotient \<open>x / y\<close> of two float64 values.\<close>

fun float_div :: "float64 \<Rightarrow> float64 \<Rightarrow> float64" where
  "float_div (Finite s1 m1 e1) (Finite s2 m2 e2) =
     (if m2 = 0 then (if m1 = 0 then NaN else Infinity (s1 \<noteq> s2))
      else round_float64 (s1 \<noteq> s2)
             (m1 * 2 ^ nat (e1 - e2)) (m2 * 2 ^ nat (e2 - e1)))"
| "float_div (Finite s1 m1 e1) (Infinity s2) = Finite (s1 \<noteq> s2) 0 0"
| "float_div (Infinity s1) (Finite s2 m2 e2) = Infinity (s1 \<noteq> s2)"
| "float_div (Infinity s1) (Infinity s2) = NaN"
| "float_div NaN y = NaN"
| "float_div x NaN = NaN"

text \<open>
  The verb \<open>%.<prec>f\<close> of package fmt on a float64: the exact value rounded to
  \<open>prec\<close> decimals, ties to even (strconv rounds the exact decimal expansion).
\<close>

definition fmt_f :: "nat \<Rightarrow> float64 \<Rightarrow> string" where
  "fmt_f prec x =
     (case x of
        NaN \<Rightarrow> ''NaN''
      | Infinity neg \<Rightarrow> (if neg then ''-Inf'' else ''+Inf'')
      | Finite neg m e \<Rightarrow>
          (let t = (if 0 \<le> e then m * 2 ^ nat e * 10 ^ prec
                    else rhe_div (m * 10 ^ prec) (2 ^ nat (- e)));
               frac = digits (t mod 10 ^ prec)
           in (if neg then ''-'' else []) @ digits (t div 10 ^ prec) @
              (if prec = 0 then []
               else ''.'' @ replicate (prec - length frac) (CHR ''0'') @ frac)))"

subsection \<open>FormatSize\<close>

text \<open>
  \<^verbatim>\<open>func FormatSize(bytes int64) string\<close>. The loop
  \<^verbatim>\<open>for n := bytes / unit; n >= unit; n /= unit { div *= unit; exp++ }\<close>
  runs on int64 values: the product wraps around at 64 bits.
\<close>

definition wrap64 :: "int \<Rightarrow> int" where
  "wrap64 x = sint (word_of_int x :: 64 word)"

function FormatSize_loop :: "int \<Rightarrow> int \<Rightarrow> int \<Rightarrow> int \<times> int" where
  "FormatSize_loop n dv ex =
     (if 1024 \<le> n then FormatSize_loop (n div 1024) (wrap64 (dv * 1024)) (ex + 1)
      else (dv, ex))"
  by pat_completeness auto
termination
  by (relation "measure (\<lambda>(n, dv, ex). nat n)") auto

declare FormatSize_loop.simps [simp del]

definition FormatSize :: "64 word \<Rightarrow> panic + string" where
  "FormatSize bytes =
     (let b = sint bytes
      in if b < 1024 then Inr (itoa b @ '' B'')
         else
           (case FormatSize_loop (b div 1024) 1024 0 of
              (dv, ex) \<Rightarrow>
                (case index ''KMGTPE'' ex of
                   Inl p \<Rightarrow> Inl p
                 | Inr c \<Rightarrow>
                     Inr (fmt_f 1 (float_div (float64_of_int b) (float64_of_int dv))
                          @ '' '' @ [c] @ ''B''))))"

section \<open>Bytes and UTF-8\<close>

definition byte :: "char \<Rightarrow> nat" where
  "byte c = of_char c"

definition in_range :: "char \<Rightarrow> char \<Rightarrow> char \<Rightarrow> bool" where
  "in_range lo hi c = (byte lo \<le> byte c \<and> byte c \<le> byte hi)"

definition is_cont :: "char \<Rightarrow> bool" where
  "is_cont c = (128 \<le> byte c \<and> byte c \<le> 191)"

text \<open>
  \<^verbatim>\<open>utf8.DecodeRune\<close>: the code point at the head of the bytes and its width. A byte
  that starts no well-formed sequence is the replacement rune \<open>U+FFFD\<close> of width 1.
\<close>

definition RuneError :: nat where
  "RuneError = 65533"

fun DecodeRune :: "string \<Rightarrow> nat \<times> nat" where
  "DecodeRune [] = (RuneError, 0)"
| "DecodeRune (c0 # cs) =
     (let b0 = byte c0 in
      if b0 < 128 then (b0, 1)
      else if 194 \<le> b0 \<and> b0 \<le> 223 then
        (case cs of
           c1 # _ \<Rightarrow> if is_cont c1 then ((b0 - 192) * 64 + (byte c1 - 128), 2)
                     else (RuneError, 1)
         | _ \<Rightarrow> (RuneError, 1))
      else if 224 \<le> b0 \<and> b0 \<le> 239 then
        (case cs of
           c1 # c2 # _ \<Rightarrow>
             if (if b0 = 224 then 160 else 128) \<le> byte c1
                \<and> byte c1 \<le> (if b0 = 237 then 159 else 191) \<and> is_cont c2
             then ((b0 - 224) * 4096 + (byte c1 - 128) * 64 + (byte c2 - 128), 3)
             else (RuneError, 1)
         | _ \<Rightarrow> (RuneError, 1))
      else if 240 \<le> b0 \<and> b0 \<le> 244 then
        (case cs of
           c1 # c2 # c3 # _ \<Rightarrow>
             if (if b0 = 240 then 144 else 128) \<le> byte c1
                \<and> byte c1 \<le> (if b0 = 244 then 143 else 191) \<and> is_cont c2 \<and> is_cont c3
             then ((b0 - 240) * 262144 + (byte c1 - 128) * 4096 + (byte c2 - 128) * 64
                   + (byte c3 - 128), 4)
             else (RuneError, 1)
         | _ \<Rightarrow> (RuneError, 1))
      else (RuneError, 1))"

text \<open>\<^verbatim>\<open>utf8.EncodeRune\<close>; a surrogate or a value beyond \<open>U+10FFFF\<close> is written as \<open>U+FFFD\<close>.\<close>

definition EncodeRune :: "nat \<Rightarrow> string" where
  "EncodeRune r =
     (let r = (if 1114111 < r \<or> (55296 \<le> r \<and> r \<le> 57343) then RuneError else r) in
      if r < 128 then [char_of r]
      else if r < 2048 then [char_of (192 + r div 64), char_of (128 + r mod 64)]
      else if r < 65536 then
        [char_of (224 + r div 4096), char_of (128 + r div 64 mod 64), char_of (128 + r mod 64)]
      else
        [char_of (240 + r div 262144), char_of (128 + r div 4096 mod 64),
         char_of (128 + r div 64 mod 64), char_of (128 + r mod 64)])"

text \<open>\<^verbatim>\<open>utf8.RuneCount\<close>: every ill-formed byte counts as one rune.\<close>

fun RuneCount :: "string \<Rightarrow> nat" where
  "RuneCount [] = 0"
| "RuneCount (c # cs) = Suc (RuneCount (drop (snd (DecodeRune (c # cs)) - 1) cs))"

section \<open>Package encoding/json, as the client uses it\<close>

text \<open>
  The errors a \<^verbatim>\<open>Decoder\<close> returns: a syntax error (the offending byte and the context), the
  two end-of-input errors, a failed read of the underlying reader, and a JSON value that
  does not fit the Go type (the kind of the value).
\<close>

datatype json_error =
    SyntaxError char string
  | ErrUnexpectedEOF
  | EOF
  | ReadError string
  | UnmarshalTypeError string

subsection \<open>The scanner (scanner.go)\<close>

datatype scan_code =
    ScanContinue | ScanBeginLiteral | ScanBeginObject | ScanObjectKey | ScanObjectValue
  | ScanEndObject | ScanBeginArray | ScanArrayValue | ScanEndArray | ScanSkipSpace
  | ScanEnd | ScanError

datatype parse_state = ParseObjectKey | ParseObjectValue | ParseArrayValue

datatype step_fn =
    StateBeginValueOrEmpty | StateBeginValue | StateBeginStringOrEmpty | StateBeginString
  | StateEndValue | StateEndTop | StateInString | StateInStringEsc | StateInStringEscU
  | StateInStringEscU1 | StateInStringEscU12 | StateInStringEscU123
  | StateNeg | State1 | State0 | StateDot | StateDot0 | StateE | StateESign | StateE0
  | StateT | StateTr | StateTru | StateF | StateFa | StateFal | StateFals
  | StateN | StateNu | StateNul | StateError

text \<open>The parse stack has its top at the head of the list.\<close>

record scanner =
  step :: step_fn
  parseState :: "parse_state list"
  err :: "json_error option"
  endTop :: bool

definition scanner_reset :: scanner where
  "scanner_reset = \<lparr>step = StateBeginValue, parseState = [], err = None, endTop = False\<rparr>"

definition maxNestingDepth :: nat where
  "maxNestingDepth = 10000"

definition isSpace :: "char \<Rightarrow> bool" where
  "isSpace c = (c = CHR '' '' \<or> c = CHR 0x09 \<or> c = CHR 0x0D \<or> c = CHR 0x0A)"

definition is_digit :: "char \<Rightarrow> bool" where
  "is_digit c = in_range (CHR ''0'') (CHR ''9'') c"

definition is_hex :: "char \<Rightarrow> bool" where
  "is_hex c = (is_digit c \<or> in_range (CHR ''a'') (CHR ''f'') c \<or> in_range (CHR ''A'') (CHR ''F'') c)"

definition scan_error :: "scanner \<Rightarrow> char \<Rightarrow> string \<Rightarrow> scan_code \<times> scanner" where
  "scan_error s c context = (ScanError, s\<lparr>step := StateError, err := Some (SyntaxError c context)\<rparr>)"

definition goto :: "scanner \<Rightarrow> step_fn \<Rightarrow> scan_code \<Rightarrow> scan_code \<times> scanner" where
  "goto s st code = (code, s\<lparr>step := st\<rparr>)"

definition pushParseState ::
  "scanner \<Rightarrow> char \<Rightarrow> parse_state \<Rightarrow> scan_code \<Rightarrow> scan_code \<times> scanner" where
  "pushParseState s c newParseState successState =
     (let s' = s\<lparr>parseState := newParseState # parseState s\<rparr> in
      if length (parseState s') \<le> maxNestingDepth then (successState, s')
      else scan_error s' c ''exceeded max depth'')"

definition popParseState :: "scanner \<Rightarrow> scanner" where
  "popParseState s =
     (let s' = s\<lparr>parseState := tl (parseState s)\<rparr> in
      if parseState s' = [] then s'\<lparr>step := StateEndTop, endTop := True\<rparr>
      else s'\<lparr>step := StateEndValue\<rparr>)"

definition stateEndTop :: "scanner \<Rightarrow> char \<Rightarrow> scan_code \<times> scanner" where
  "stateEndTop s c =
     (if \<not> isSpace c then (ScanEnd, snd (scan_error s c ''after top-level value''))
      else (ScanEnd, s))"

definition stateEndValue :: "scanner \<Rightarrow> char \<Rightarrow> scan_code \<times> scanner" where
  "stateEndValue s c =
     (case parseState s of
        [] \<Rightarrow> stateEndTop (s\<lparr>step := StateEndTop, endTop := True\<rparr>) c
      | ps # rest \<Rightarrow>
          if isSpace c then goto s StateEndValue ScanSkipSpace
          else (case ps of
              ParseObjectKey \<Rightarrow>
                if c = CHR '':'' then
                  goto (s\<lparr>parseState := ParseObjectValue # rest\<rparr>) StateBeginValue ScanObjectKey
                else scan_error s c ''after object key''
            | ParseObjectValue \<Rightarrow>
                if c = CHR '','' then
                  goto (s\<lparr>parseState := ParseObjectKey # rest\<rparr>) StateBeginString ScanObjectValue
                else if c = CHR ''}'' then (ScanEndObject, popParseState s)
                else scan_error s c ''after object key:value pair''
            | ParseArrayValue \<Rightarrow>
                if c = CHR '','' then goto s StateBeginValue ScanArrayValue
                else if c = CHR '']'' then (ScanEndArray, popParseState s)
                else scan_error s c ''after array element''))"

definition stateBeginValue :: "scanner \<Rightarrow> char \<Rightarrow> scan_code \<times> scanner" where
  "stateBeginValue s c =
     (if isSpace c then (ScanSkipSpace, s)
      else if c = CHR ''{'' then
        pushParseState (s\<lparr>step := StateBeginStringOrEmpty\<rparr>) c ParseObjectKey ScanBeginObject
      else if c = CHR ''['' then
        pushParseState (s\<lparr>step := StateBeginValueOrEmpty\<rparr>) c ParseArrayValue ScanBeginArray
      else if c = CHR 0x22 then goto s StateInString ScanBeginLiteral
      else if c = CHR ''-'' then goto s StateNeg ScanBeginLiteral
      else if c = CHR ''0'' then goto s State0 ScanBeginLiteral
      else if c = CHR ''t'' then goto s StateT ScanBeginLiteral
      else if c = CHR ''f'' then goto s StateF ScanBeginLiteral
      else if c = CHR ''n'' then goto s StateN ScanBeginLiteral
      else if in_range (CHR ''1'') (CHR ''9'') c then goto s State1 ScanBeginLiteral
      else scan_error s c ''looking for beginning of value'')"

definition stateBeginValueOrEmpty :: "scanner \<Rightarrow> char \<Rightarrow> scan_code \<times> scanner" where
  "stateBeginValueOrEmpty s c =
     (if isSpace c then (ScanSkipSpace, s)
      else if c = CHR '']'' then stateEndValue s c
      else stateBeginValue s c)"

definition stateBeginString :: "scanner \<Rightarrow> char \<Rightarrow> scan_code \<times> scanner" where
  "stateBeginString s c =
     (if isSpace c then (ScanSkipSpace, s)
      else if c = CHR 0x22 then goto s StateInString ScanBeginLiteral
      else scan_error s c ''looking for beginning of object key string'')"

definition stateBeginStringOrEmpty :: "scanner \<Rightarrow> char \<Rightarrow> scan_code \<times> scanner" where
  "stateBeginStringOrEmpty s c =
     (if isSpace c then (ScanSkipSpace, s)
      else if c = CHR ''}'' then
        stateEndValue (s\<lparr>parseState := ParseObjectValue # tl (parseState s)\<rparr>) c
      else stateBeginString s c)"

definition stateInString :: "scanner \<Rightarrow> char \<Rightarrow> scan_code \<times> scanner" where
  "stateInString s c =
     (if c = CHR 0x22 then goto s StateEndValue ScanContinue
      else if c = CHR 0x5C then goto s StateInStringEsc ScanContinue
      else if byte c < 32 then scan_error s c ''in string literal''
      else (ScanContinue, s))"

definition stateInStringEsc :: "scanner \<Rightarrow> char \<Rightarrow> scan_code \<times> scanner" where
  "stateInStringEsc s c =
     (if c \<in> set ''bfnrt/'' \<or> c = CHR 0x5C \<or> c = CHR 0x22 then goto s StateInString ScanContinue
      else if c = CHR ''u'' then goto s StateInStringEscU ScanContinue
      else scan_error s c ''in string escape code'')"

definition state_hex :: "step_fn \<Rightarrow> scanner \<Rightarrow> char \<Rightarrow> scan_code \<times> scanner" where
  "state_hex next s c =
     (if is_hex c then goto s next ScanContinue
      else scan_error s c (''in '' @ [CHR 0x5C] @ ''u hexadecimal character escape''))"

definition state0 :: "scanner \<Rightarrow> char \<Rightarrow> scan_code \<times> scanner" where
  "state0 s c =
     (if c = CHR ''.'' then goto s StateDot ScanContinue
      else if c = CHR ''e'' \<or> c = CHR ''E'' then goto s StateE ScanContinue
      else stateEndValue s c)"

definition state1 :: "scanner \<Rightarrow> char \<Rightarrow> scan_code \<times> scanner" where
  "state1 s c = (if is_digit c then goto s State1 ScanContinue else state0 s c)"

definition stateNeg :: "scanner \<Rightarrow> char \<Rightarrow> scan_code \<times> scanner" where
  "stateNeg s c =
     (if c = CHR ''0'' then goto s State0 ScanContinue
      else if in_range (CHR ''1'') (CHR ''9'') c then goto s State1 ScanContinue
      else scan_error s c ''in numeric literal'')"

definition stateDot :: "scanner \<Rightarrow> char \<Rightarrow> scan_code \<times> scanner" where
  "stateDot s c =
     (if is_digit c then goto s StateDot0 ScanContinue
      else scan_error s c ''after decimal point in numeric literal'')"

definition stateDot0 :: "scanner \<Rightarrow> char \<Rightarrow> scan_code \<times> scanner" where
  "stateDot0 s c =
     (if is_digit c then (ScanContinue, s)
      else if c = CHR ''e'' \<or> c = CHR ''E'' then goto s StateE ScanContinue
      else stateEndValue s c)"

definition stateESign :: "scanner \<Rightarrow> char \<Rightarrow> scan_code \<times> scanner" where
  "stateESign s c =
     (if is_digit c then goto s StateE0 ScanContinue
      else scan_error s c ''in exponent of numeric literal'')"

definition stateE :: "scanner \<Rightarrow> char \<Rightarrow> scan_code \<times> scanner" where
  "stateE s c =
     (if c = CHR ''+'' \<or> c = CHR ''-'' then goto s StateESign ScanContinue
      else stateESign s c)"

definition stateE0 :: "scanner \<Rightarrow> char \<Rightarrow> scan_code \<times> scanner" where
  "stateE0 s c = (if is_digit c then (ScanContinue, s) else stateEndValue s c)"

definition state_lit ::
  "char \<Rightarrow> step_fn \<Rightarrow> string \<Rightarrow> scanner \<Rightarrow> char \<Rightarrow> scan_code \<times> scanner" where
  "state_lit expected next context s c =
     (if c = expected then goto s next ScanContinue else scan_error s c context)"

text \<open>One call \<^verbatim>\<open>s.step(s, c)\<close>.\<close>

definition scan_step :: "scanner \<Rightarrow> char \<Rightarrow> scan_code \<times> scanner" where
  "scan_step s c =
     (case step s of
        StateBeginValueOrEmpty \<Rightarrow> stateBeginValueOrEmpty s c
      | StateBeginValue \<Rightarrow> stateBeginValue s c
      | StateBeginStringOrEmpty \<Rightarrow> stateBeginStringOrEmpty s c
      | StateBeginString \<Rightarrow> stateBeginString s c
      | StateEndValue \<Rightarrow> stateEndValue s c
      | StateEndTop \<Rightarrow> stateEndTop s c
      | StateInString \<Rightarrow> stateInString s c
      | StateInStringEsc \<Rightarrow> stateInStringEsc s c
      | StateInStringEscU \<Rightarrow> state_hex StateInStringEscU1 s c
      | StateInStringEscU1 \<Rightarrow> state_hex StateInStringEscU12 s c
      | StateInStringEscU12 \<Rightarrow> state_hex StateInStringEscU123 s c
      | StateInStringEscU123 \<Rightarrow> state_hex StateInString s c
      | StateNeg \<Rightarrow> stateNeg s c
      | State1 \<Rightarrow> state1 s c
      | State0 \<Rightarrow> state0 s c
      | StateDot \<Rightarrow> stateDot s c
      | StateDot0 \<Rightarrow> stateDot0 s c
      | StateE \<Rightarrow> stateE s c
      | StateESign \<Rightarrow> stateESign s c
      | StateE0 \<Rightarrow> stateE0 s c
      | StateT \<Rightarrow> state_lit (CHR ''r'') StateTr ''in literal true (expecting 'r')'' s c
      | StateTr \<Rightarrow> state_lit (CHR ''u'') StateTru ''in literal true (expecting 'u')'' s c
      | StateTru \<Rightarrow> state_lit (CHR ''e'') StateEndValue ''in literal true (expecting 'e')'' s c
      | StateF \<Rightarrow> state_lit (CHR ''a'') StateFa ''in literal false (expecting 'a')'' s c
      | StateFa \<Rightarrow> state_lit (CHR ''l'') StateFal ''in literal false (expecting 'l')'' s c
      | StateFal \<Rightarrow> state_lit (CHR ''s'') StateFals ''in literal false (expecting 's')'' s c
      | StateFals \<Rightarrow> state_lit (CHR ''e'') StateEndValue ''in literal false (expecting 'e')'' s c
      | StateN \<Rightarrow> state_lit (CHR ''u'') StateNu ''in literal null (expecting 'u')'' s c
      | StateNu \<Rightarrow> state_lit (CHR ''l'') StateNul ''in literal null (expecting 'l')'' s c
      | StateNul \<Rightarrow> state_lit (CHR ''l'') StateEndValue ''in literal null (expecting 'l')'' s c
      | StateError \<Rightarrow> (ScanError, s))"

subsection \<open>Decoder.readValue over a reader (stream.go)\<close>

text \<open>
  An \<^verbatim>\<open>io.Reader\<close> is the sequence of byte blocks its \<^verbatim>\<open>Read\<close> calls will return, followed
  by the error that ends it: \<open>None\<close> is \<^verbatim>\<open>io.EOF\<close>, \<open>Some e\<close> another error.
  Whatever a call has read is gone from the reader.
\<close>

record reader =
  blocks :: "string list"
  final :: "string option"

text \<open>\<^verbatim>\<open>io.ReadAll\<close> where the caller drops the error: all bytes still in the reader.\<close>

definition ReadAll :: "reader \<Rightarrow> string" where
  "ReadAll r = concat (blocks r)"

datatype scan_result = ValueEnd nat | ScanFailed json_error | NeedMore scanner

text \<open>
  The inner loop of \<^verbatim>\<open>readValue\<close> over the bytes of the buffer not yet scanned; \<open>p\<close> is
  \<^verbatim>\<open>scanp\<close>. \<^verbatim>\<open>scanEnd\<close> comes one byte late, so that byte is not part of the value; after
  the end of an object or array the loop asks with an invented space.
\<close>

fun scan_bytes :: "scanner \<Rightarrow> nat \<Rightarrow> string \<Rightarrow> scan_result" where
  "scan_bytes s p [] = NeedMore s"
| "scan_bytes s p (c # cs) =
     (case scan_step s c of
        (code, s') \<Rightarrow>
          if code = ScanEnd then ValueEnd p
          else if code = ScanEndObject \<or> code = ScanEndArray then
            (case stateEndValue s' (CHR '' '') of
               (code2, s'') \<Rightarrow>
                 if code2 = ScanEnd then ValueEnd (p + 1) else scan_bytes s'' (p + 1) cs)
          else if code = ScanError then
            ScanFailed (case err s' of Some e \<Rightarrow> e | None \<Rightarrow> SyntaxError c [])
          else scan_bytes s' (p + 1) cs)"

definition nonSpace :: "string \<Rightarrow> bool" where
  "nonSpace b = (\<exists>c \<in> set b. \<not> isSpace c)"

text \<open>
  The outer loop: scan what is buffered, then look at the error of the last read, then
  read again. The result is the error or the bytes of the value, and the reader as the
  decoder leaves it: the bytes it has buffered beyond the value are not given back.
\<close>

fun readValue_loop ::
  "scanner \<Rightarrow> string \<Rightarrow> string list \<Rightarrow> string option \<Rightarrow> (json_error + string) \<times> reader" where
  "readValue_loop s buf [] fin =
     (case fin of
        Some e \<Rightarrow> (Inl (ReadError e), \<lparr>blocks = [], final = fin\<rparr>)
      | None \<Rightarrow>
          if fst (scan_step s (CHR '' '')) = ScanEnd then (Inr buf, \<lparr>blocks = [], final = fin\<rparr>)
          else if nonSpace buf then (Inl ErrUnexpectedEOF, \<lparr>blocks = [], final = fin\<rparr>)
          else (Inl EOF, \<lparr>blocks = [], final = fin\<rparr>))"
| "readValue_loop s buf (b # bs) fin =
     (case scan_bytes s (length buf) b of
        ValueEnd n \<Rightarrow> (Inr (take n (buf @ b)), \<lparr>blocks = bs, final = fin\<rparr>)
      | ScanFailed e \<Rightarrow> (Inl e, \<lparr>blocks = bs, final = fin\<rparr>)
      | NeedMore s' \<Rightarrow> readValue_loop s' (buf @ b) bs fin)"

definition readValue :: "reader \<Rightarrow> (json_error + string) \<times> reader" where
  "readValue r = readValue_loop scanner_reset [] (blocks r) (final r)"

text \<open>
  \<^verbatim>\<open>json.NewDecoder(r).Decode(v)\<close> on a fresh decoder: read one value, then unmarshal its
  bytes into the Go value \<open>v\<close>, whose type decides \<open>unmarshal\<close>.
\<close>

definition Decode ::
  "(string \<Rightarrow> json_error + 'a) \<Rightarrow> reader \<Rightarrow> (json_error + 'a) \<times> reader" where
  "Decode unmarshal r =
     (case readValue r of
        (Inl e, r') \<Rightarrow> (Inl e, r')
      | (Inr v, r') \<Rightarrow> (unmarshal v, r'))"

subsection \<open>Unmarshalling a scanned value (decode.go)\<close>

text \<open>
  The value tree of a text the scanner has accepted. Strings and object keys keep their
  bytes as written between the quotes; a number keeps its literal.
\<close>

datatype json =
    JNull | JBool bool | JNumber string | JString string
  | JArray "json list" | JObject "(string \<times> json) list"

fun skip_ws :: "string \<Rightarrow> string" where
  "skip_ws [] = []"
| "skip_ws (c # cs) = (if isSpace c then skip_ws cs else c # cs)"

text \<open>After an opening quote: the bytes up to the closing quote, and what follows it.\<close>

fun string_body :: "string \<Rightarrow> (string \<times> string) option" where
  "string_body [] = None"
| "string_body [c] = (if c = CHR 0x22 then Some ([], []) else None)"
| "string_body (c # d # ds) =
     (if c = CHR 0x22 then Some ([], d # ds)
      else if c = CHR 0x5C then
        (case string_body ds of None \<Rightarrow> None | Some (b, r) \<Rightarrow> Some (c # d # b, r))
      else (case string_body (d # ds) of None \<Rightarrow> None | Some (b, r) \<Rightarrow> Some (c # b, r)))"

definition lit_char :: "char \<Rightarrow> bool" where
  "lit_char c = (\<not> isSpace c \<and> c \<notin> set '',]}'')"

definition literal :: "string \<Rightarrow> json" where
  "literal l =
     (if l = ''null'' then JNull else if l = ''true'' then JBool True
      else if l = ''false'' then JBool False else JNumber l)"

text \<open>
  The recursive descent over the text; the first argument bounds the number of calls and
  is the length of the text plus one where it is used.
\<close>

fun parse_value :: "nat \<Rightarrow> string \<Rightarrow> (json \<times> string) option"
  and parse_members :: "nat \<Rightarrow> string \<Rightarrow> ((string \<times> json) list \<times> string) option"
  and parse_elements :: "nat \<Rightarrow> string \<Rightarrow> (json list \<times> string) option" where
  "parse_value 0 s = None"
| "parse_value (Suc n) s =
     (case skip_ws s of
        [] \<Rightarrow> None
      | c # r \<Rightarrow>
          if c = CHR ''{'' then
            (case skip_ws r of
               [] \<Rightarrow> None
             | c' # r' \<Rightarrow>
                 if c' = CHR ''}'' then Some (JObject [], r')
                 else (case parse_members n (c' # r') of
                         None \<Rightarrow> None
                       | Some (ms, r'') \<Rightarrow> Some (JObject ms, r'')))
          else if c = CHR ''['' then
            (case skip_ws r of
               [] \<Rightarrow> None
             | c' # r' \<Rightarrow>
                 if c' = CHR '']'' then Some (JArray [], r')
                 else (case parse_elements n (c' # r') of
                         None \<Rightarrow> None
                       | Some (es, r'') \<Rightarrow> Some (JArray es, r'')))
          else if c = CHR 0x22 then
            (case string_body r of
               None \<Rightarrow> None
             | Some (b, r') \<Rightarrow> Some (JString b, r'))
          else Some (literal (takeWhile lit_char (c # r)), dropWhile lit_char (c # r)))"
| "parse_members 0 s = None"
| "parse_members (Suc n) s =
     (case skip_ws s of
        [] \<Rightarrow> None
      | c # r \<Rightarrow>
          if c \<noteq> CHR 0x22 then None
          else
            (case string_body r of
               None \<Rightarrow> None
             | Some (k, r1) \<Rightarrow>
                 (case skip_ws r1 of
                    [] \<Rightarrow> None
                  | c1 # r2 \<Rightarrow>
                      if c1 \<noteq> CHR '':'' then None
                      else
                        (case parse_value n r2 of
                           None \<Rightarrow> None
                         | Some (v, r3) \<Rightarrow>
                             (case skip_ws r3 of
                                [] \<Rightarrow> None
                              | c3 # r4 \<Rightarrow>
                                  if c3 = CHR ''}'' then Some ([(k, v)], r4)
                                  else if c3 = CHR '','' then
                                    (case parse_members n r4 of
                                       None \<Rightarrow> None
                                     | Some (ms, r5) \<Rightarrow> Some ((k, v) # ms, r5))
                                  else None)))))"
| "parse_elements 0 s = None"
| "parse_elements (Suc n) s =
     (case parse_value n s of
        None \<Rightarrow> None
      | Some (v, r1) \<Rightarrow>
          (case skip_ws r1 of
             [] \<Rightarrow> None
           | c # r2 \<Rightarrow>
               if c = CHR '']'' then Some ([v], r2)
               else if c = CHR '','' then
                 (case parse_elements n r2 of
                    None \<Rightarrow> None
                  | Some (vs, r3) \<Rightarrow> Some (v # vs, r3))
               else None))"

definition parse_json :: "string \<Rightarrow> json option" where
  "parse_json s = map_option fst (parse_value (Suc (length s)) s)"

text \<open>\<^verbatim>\<open>getu4\<close>: the four hex digits after \<open>\u\<close> as a number.\<close>

definition hex_val :: "char \<Rightarrow> nat" where
  "hex_val c =
     (if is_digit c then byte c - 48
      else if in_range (CHR ''a'') (CHR ''f'') c then byte c - 87
      else byte c - 55)"

definition getu4 :: "string \<Rightarrow> nat option" where
  "getu4 s =
     (case s of
        b # u # h1 # h2 # h3 # h4 # _ \<Rightarrow>
          if b = CHR 0x5C \<and> u = CHR ''u'' \<and> is_hex h1 \<and> is_hex h2 \<and> is_hex h3 \<and> is_hex h4
          then Some (hex_val h1 * 4096 + hex_val h2 * 256 + hex_val h3 * 16 + hex_val h4)
          else None
      | _ \<Rightarrow> None)"

definition is_surrogate :: "nat \<Rightarrow> bool" where
  "is_surrogate r = (55296 \<le> r \<and> r < 57344)"

text \<open>\<^verbatim>\<open>utf16.DecodeRune\<close> on a first half and what follows it (\<open>None\<close>: no escape follows).\<close>

definition utf16_DecodeRune :: "nat \<Rightarrow> nat option \<Rightarrow> nat" where
  "utf16_DecodeRune r1 r2o =
     (case r2o of
        None \<Rightarrow> RuneError
      | Some r2 \<Rightarrow>
          if 55296 \<le> r1 \<and> r1 < 56320 \<and> 56320 \<le> r2 \<and> r2 < 57344
          then (r1 - 55296) * 1024 + (r2 - 56320) + 65536
          else RuneError)"

text \<open>
  \<^verbatim>\<open>unquoteBytes\<close> on the bytes between the quotes: escapes are replaced, a pair of
  surrogate escapes is one rune, and ill-formed UTF-8 is coerced to \<open>U+FFFD\<close>.
\<close>

fun unquote :: "string \<Rightarrow> string option" where
  "unquote [] = Some []"
| "unquote (c # cs) =
     (if c = CHR 0x5C then
        (case cs of
           [] \<Rightarrow> None
         | d # ds \<Rightarrow>
             if d = CHR 0x22 \<or> d = CHR 0x5C \<or> d = CHR ''/'' \<or> d = CHR 0x27 then
               map_option ((#) d) (unquote ds)
             else if d = CHR ''b'' then map_option ((#) (CHR 0x08)) (unquote ds)
             else if d = CHR ''f'' then map_option ((#) (CHR 0x0C)) (unquote ds)
             else if d = CHR ''n'' then map_option ((#) (CHR 0x0A)) (unquote ds)
             else if d = CHR ''r'' then map_option ((#) (CHR 0x0D)) (unquote ds)
             else if d = CHR ''t'' then map_option ((#) (CHR 0x09)) (unquote ds)
             else if d = CHR ''u'' then
               (case getu4 (c # cs) of
                  None \<Rightarrow> None
                | Some rr \<Rightarrow>
                    if is_surrogate rr then
                      (let dec = utf16_DecodeRune rr (getu4 (drop 4 ds)) in
                       if dec \<noteq> RuneError then
                         map_option ((@) (EncodeRune dec)) (unquote (drop 10 ds))
                       else map_option ((@) (EncodeRune RuneError)) (unquote (drop 4 ds)))
                    else map_option ((@) (EncodeRune rr)) (unquote (drop 4 ds)))
             else None)
      else if c = CHR 0x22 \<or> byte c < 32 then None
      else if byte c < 128 then map_option ((#) c) (unquote cs)
      else
        (case DecodeRune (c # cs) of
           (rr, w) \<Rightarrow> map_option ((@) (EncodeRune rr)) (unquote (drop (w - 1) cs))))"

text \<open>
  The struct \<^verbatim>\<open>ErrorResponse{ Error string `json:"error"` }\<close> (client.go). A key selects
  the field when it equals the name, or else when the two are equal after case folding.
\<close>

record ErrorResponse =
  Error :: string

definition ascii_upper :: "char \<Rightarrow> char" where
  "ascii_upper c =
     (case map_of (zip ''abcdefghijklmnopqrstuvwxyz'' ''ABCDEFGHIJKLMNOPQRSTUVWXYZ'') c of
        Some d \<Rightarrow> d
      | None \<Rightarrow> c)"

definition ascii_lower :: "char \<Rightarrow> char" where
  "ascii_lower c =
     (case map_of (zip ''ABCDEFGHIJKLMNOPQRSTUVWXYZ'' ''abcdefghijklmnopqrstuvwxyz'') c of
        Some d \<Rightarrow> d
      | None \<Rightarrow> c)"

text \<open>
  The case folding of a key: a small letter becomes the capital, and so do the two
  runes beyond ASCII that Unicode folds to an ASCII letter, the long s \<open>U+017F\<close> and the
  Kelvin sign \<open>U+212A\<close>.
\<close>

fun key_runes :: "string \<Rightarrow> nat list" where
  "key_runes [] = []"
| "key_runes (c # cs) =
     fst (DecodeRune (c # cs)) # key_runes (drop (snd (DecodeRune (c # cs)) - 1) cs)"

definition fold_rune :: "nat \<Rightarrow> nat" where
  "fold_rune r =
     (if 97 \<le> r \<and> r \<le> 122 then r - 32
      else if r = 383 then 83 else if r = 8490 then 75 else r)"

definition field_matches :: "string \<Rightarrow> string \<Rightarrow> bool" where
  "field_matches name key =
     (key = name \<or> map fold_rune (key_runes key) = map fold_rune (key_runes name))"

text \<open>
  Storing a value into a field of type string: a string sets it, \<open>null\<close> leaves it, any
  other value is a type error, which is saved while decoding goes on.
\<close>

fun store_string :: "json \<Rightarrow> string \<Rightarrow> json_error option \<times> string" where
  "store_string (JString raw) cur =
     (case unquote raw of Some t \<Rightarrow> (None, t) | None \<Rightarrow> (Some (UnmarshalTypeError ''out of sync''), cur))"
| "store_string JNull cur = (None, cur)"
| "store_string (JBool b) cur = (Some (UnmarshalTypeError ''bool''), cur)"
| "store_string (JNumber n) cur = (Some (UnmarshalTypeError ''number''), cur)"
| "store_string (JArray es) cur = (Some (UnmarshalTypeError ''array''), cur)"
| "store_string (JObject ms) cur = (Some (UnmarshalTypeError ''object''), cur)"

text \<open>The first saved error is the one returned.\<close>

definition first_error :: "json_error option \<Rightarrow> json_error option \<Rightarrow> json_error option" where
  "first_error saved e = (case saved of None \<Rightarrow> e | Some x \<Rightarrow> Some x)"

fun object_ErrorResponse ::
  "(string \<times> json) list \<Rightarrow> json_error option \<times> ErrorResponse \<Rightarrow> json_error option \<times> ErrorResponse" where
  "object_ErrorResponse [] acc = acc"
| "object_ErrorResponse ((k, v) # ms) (saved, r) =
     (case unquote k of
        None \<Rightarrow> object_ErrorResponse ms (first_error saved (Some (UnmarshalTypeError ''out of sync'')), r)
      | Some key \<Rightarrow>
          if field_matches ''error'' key then
            (case store_string v (Error r) of
               (e, t) \<Rightarrow> object_ErrorResponse ms (first_error saved e, r\<lparr>Error := t\<rparr>))
          else object_ErrorResponse ms (saved, r))"

definition unmarshal_ErrorResponse :: "string \<Rightarrow> json_error + ErrorResponse" where
  "unmarshal_ErrorResponse v =
     (case parse_json v of
        None \<Rightarrow> Inl (UnmarshalTypeError ''out of sync'')
      | Some (JObject ms) \<Rightarrow>
          (case object_ErrorResponse ms (None, \<lparr>Error = []\<rparr>) of
             (None, r) \<Rightarrow> Inr r
           | (Some e, r) \<Rightarrow> Inl e)
      | Some JNull \<Rightarrow> Inr \<lparr>Error = []\<rparr>
      | Some (JBool b) \<Rightarrow> Inl (UnmarshalTypeError ''bool'')
      | Some (JNumber n) \<Rightarrow> Inl (UnmarshalTypeError ''number'')
      | Some (JString s) \<Rightarrow> Inl (UnmarshalTypeError ''string'')
      | Some (JArray es) \<Rightarrow> Inl (UnmarshalTypeError ''array''))"

section \<open>Packages net/url and net/http, as the client uses them\<close>

subsection \<open>url.Values\<close>

text \<open>
  \<^verbatim>\<open>url.Values\<close> is a \<^verbatim>\<open>map[string][]string\<close>: here a list of pairs with distinct keys,
  whose order means nothing. \<^verbatim>\<open>Set\<close> replaces the values of a key.
\<close>

type_synonym Values = "(string \<times> string list) list"

fun Values_Set :: "Values \<Rightarrow> string \<Rightarrow> string \<Rightarrow> Values" where
  "Values_Set [] k v = [(k, [v])]"
| "Values_Set ((k', vs) # rest) k v =
     (if k' = k then (k, [v]) # rest else (k', vs) # Values_Set rest k v)"

definition is_alnum :: "char \<Rightarrow> bool" where
  "is_alnum c =
     (in_range (CHR ''a'') (CHR ''z'') c \<or> in_range (CHR ''A'') (CHR ''Z'') c
      \<or> in_range (CHR ''0'') (CHR ''9'') c)"

text \<open>
  \<^verbatim>\<open>url.QueryEscape\<close>: letters, digits and \<open>-_.~\<close> stay, a space becomes \<open>+\<close>, every other
  byte becomes \<open>%XX\<close> with upper-case hex digits.
\<close>

definition shouldEscape :: "char \<Rightarrow> bool" where
  "shouldEscape c = (\<not> (is_alnum c \<or> c \<in> set ''-_.~''))"

definition escape_byte :: "char \<Rightarrow> string" where
  "escape_byte c =
     (if c = CHR '' '' then ''+''
      else if shouldEscape c then
        [CHR ''%'', ''0123456789ABCDEF'' ! (byte c div 16), ''0123456789ABCDEF'' ! (byte c mod 16)]
      else [c])"

definition QueryEscape :: "string \<Rightarrow> string" where
  "QueryEscape s = concat (map escape_byte s)"

text \<open>The order \<open><\<close> of Go strings: byte by byte.\<close>

fun bytes_less :: "string \<Rightarrow> string \<Rightarrow> bool" where
  "bytes_less [] [] = False"
| "bytes_less [] (y # ys) = True"
| "bytes_less (x # xs) [] = False"
| "bytes_less (x # xs) (y # ys) = (byte x < byte y \<or> (byte x = byte y \<and> bytes_less xs ys))"

fun insert_key :: "string \<Rightarrow> string list \<Rightarrow> string list" where
  "insert_key k [] = [k]"
| "insert_key k (x # xs) = (if bytes_less x k then x # insert_key k xs else k # x # xs)"

definition sort_keys :: "string list \<Rightarrow> string list" where
  "sort_keys ks = foldr insert_key ks []"

text \<open>
  \<^verbatim>\<open>Values.Encode\<close>: the keys are sorted; every value is written as \<open>key=value\<close>, both
  escaped, with \<open>&\<close> before it unless the buffer is still empty.
\<close>

definition encode_pair :: "string \<Rightarrow> string \<Rightarrow> string \<Rightarrow> string" where
  "encode_pair k buf v =
     (if buf \<noteq> [] then buf @ ''&'' else buf) @ QueryEscape k @ ''='' @ QueryEscape v"

definition Values_Encode :: "Values \<Rightarrow> string" where
  "Values_Encode vs =
     (if vs = [] then []
      else foldl (\<lambda>buf k. foldl (encode_pair k) buf (case map_of vs k of Some xs \<Rightarrow> xs | None \<Rightarrow> []))
             [] (sort_keys (map fst vs)))"

subsection \<open>http.Header\<close>

text \<open>
  \<^verbatim>\<open>textproto.CanonicalMIMEHeaderKey\<close>: a key made of header-token bytes gets an upper-case
  letter at the start and after every hyphen and lower-case letters elsewhere; any other
  key is left as it is.
\<close>

definition validHeaderFieldByte :: "char \<Rightarrow> bool" where
  "validHeaderFieldByte c = (is_alnum c \<or> c \<in> set ''!#$%&*+-.^_`|~'' \<or> c = CHR 0x27)"

fun canonical :: "bool \<Rightarrow> string \<Rightarrow> string" where
  "canonical upper [] = []"
| "canonical upper (c # cs) =
     (let c' = (if upper then ascii_upper c else ascii_lower c)
      in c' # canonical (c' = CHR ''-'') cs)"

definition CanonicalMIMEHeaderKey :: "string \<Rightarrow> string" where
  "CanonicalMIMEHeaderKey s = (if list_all validHeaderFieldByte s then canonical True s else s)"

type_synonym Header = "(string \<times> string list) list"

definition Header_Set :: "Header \<Rightarrow> string \<Rightarrow> string \<Rightarrow> Header" where
  "Header_Set h key v = Values_Set h (CanonicalMIMEHeaderKey key) v"

definition Header_Get :: "Header \<Rightarrow> string \<Rightarrow> string" where
  "Header_Get h key =
     (case map_of h (CanonicalMIMEHeaderKey key) of
        Some (v # vs) \<Rightarrow> v
      | _ \<Rightarrow> [])"

subsection \<open>Requests, responses and the network\<close>

record Request =
  Method :: string
  URL :: string
  ReqHeader :: Header

record Response =
  StatusCode :: int
  RespHeader :: Header
  Body :: reader

text \<open>
  What lies outside the program: \<open>ParseURL\<close> is the check \<^verbatim>\<open>http.NewRequest\<close> makes on
  its URL (\<open>Some e\<close>: rejected with the error \<open>e\<close>), and \<open>RoundTrip\<close> is what
  \<^verbatim>\<open>httpClient.Do\<close> returns for a request, within its 30 second timeout: a transport
  error or a response.
\<close>

record env =
  ParseURL :: "string \<Rightarrow> string option"
  RoundTrip :: "Request \<Rightarrow> string + Response"

definition NewRequest :: "env \<Rightarrow> string \<Rightarrow> string \<Rightarrow> string + Request" where
  "NewRequest e method url =
     (case ParseURL e url of
        Some msg \<Rightarrow> Inl msg
      | None \<Rightarrow> Inr \<lparr>Method = method, URL = url, ReqHeader = []\<rparr>)"

section \<open>Package client (internal/client/client.go)\<close>

definition APIVersion :: string where
  "APIVersion = ''2025.12''"

record Client =
  baseURL :: string
  apiKey :: string

definition New_Client :: "string \<Rightarrow> string \<Rightarrow> Client" where
  "New_Client b k = \<lparr>baseURL = b, apiKey = k\<rparr>"

text \<open>
  The errors the client makes, one constructor for each \<^verbatim>\<open>fmt.Errorf\<close> of the file, with
  its arguments:
  \<^verbatim>\<open>"failed to create request: %w"\<close>, \<^verbatim>\<open>"request failed: %w"\<close>,
  \<^verbatim>\<open>"API error (%d): %s"\<close> and \<^verbatim>\<open>"failed to decode response: %w"\<close>.
\<close>

datatype error =
    CreateRequestError string
  | RequestError string
  | APIError int string
  | DecodeError json_error

text \<open>
  \<^verbatim>\<open>func (c *Client) get(path string, result interface{}) error\<close>. The argument \<open>result\<close>
  is the unmarshalling into the type of the Go value passed. The first component of the
  result lists the requests handed to the network.
\<close>

definition get ::
  "env \<Rightarrow> Client \<Rightarrow> string \<Rightarrow> (string \<Rightarrow> json_error + 'a) \<Rightarrow> Request list \<times> (error + 'a)" where
  "get e c path result =
     (case NewRequest e ''GET'' (baseURL c @ ''/api/'' @ APIVersion @ path) of
        Inl msg \<Rightarrow> ([], Inl (CreateRequestError msg))
      | Inr req0 \<Rightarrow>
          (let req = req0\<lparr>ReqHeader := Header_Set (ReqHeader req0) ''X-API-Key'' (apiKey c)\<rparr> in
           case RoundTrip e req of
             Inl msg \<Rightarrow> ([req], Inl (RequestError msg))
           | Inr resp \<Rightarrow>
               if StatusCode resp \<noteq> 200 then
                 (case Decode unmarshal_ErrorResponse (Body resp) of
                    (Inl er, rest) \<Rightarrow> ([req], Inl (APIError (StatusCode resp) (ReadAll rest)))
                  | (Inr errResp, rest) \<Rightarrow> ([req], Inl (APIError (StatusCode resp) (Error errResp))))
               else
                 (case Decode result (Body resp) of
                    (Inl er, rest) \<Rightarrow> ([req], Inl (DecodeError er))
                  | (Inr v, rest) \<Rightarrow> ([req], Inr v))))"

text \<open>The query parameters \<open>limit\<close> and \<open>offset\<close>: set when positive.\<close>

definition set_positive :: "Values \<Rightarrow> string \<Rightarrow> int \<Rightarrow> Values" where
  "set_positive params key n = (if 0 < n then Values_Set params key (itoa n) else params)"

definition set_nonempty :: "Values \<Rightarrow> string \<Rightarrow> string \<Rightarrow> Values" where
  "set_nonempty params key v = (if v \<noteq> [] then Values_Set params key v else params)"

definition Search_path :: "string \<Rightarrow> int \<Rightarrow> string" where
  "Search_path query limit =
     ''/search?'' @ Values_Encode (set_positive (Values_Set [] ''q'' query) ''limit'' limit)"

definition Search ::
  "env \<Rightarrow> (string \<Rightarrow> json_error + 'a) \<Rightarrow> Client \<Rightarrow> string \<Rightarrow> int \<Rightarrow> Request list \<times> (error + 'a)" where
  "Search e resp c query limit = get e c (Search_path query limit) resp"

definition ListDevices_path :: "int \<Rightarrow> int \<Rightarrow> string \<Rightarrow> string \<Rightarrow> string" where
  "ListDevices_path limit offset domain deviceType =
     (let params = set_nonempty (set_nonempty (set_positive (set_positive [] ''limit'' limit)
                     ''offset'' offset) ''domain'' domain) ''type'' deviceType
      in if params \<noteq> [] then ''/devices'' @ ''?'' @ Values_Encode params else ''/devices'')"

definition ListDevices ::
  "env \<Rightarrow> (string \<Rightarrow> json_error + 'a) \<Rightarrow> Client \<Rightarrow> int \<Rightarrow> int \<Rightarrow> string \<Rightarrow> string
   \<Rightarrow> Request list \<times> (error + 'a)" where
  "ListDevices e resp c limit offset domain deviceType =
     get e c (ListDevices_path limit offset domain deviceType) resp"

definition GetDevice ::
  "env \<Rightarrow> (string \<Rightarrow> json_error + 'a) \<Rightarrow> Client \<Rightarrow> string \<Rightarrow> Request list \<times> (error + 'a)" where
  "GetDevice e resp c ident = get e c (''/devices/'' @ ident) resp"

definition ListDocuments_path :: "int \<Rightarrow> int \<Rightarrow> string \<Rightarrow> string" where
  "ListDocuments_path limit offset deviceID =
     (let params = set_nonempty (set_positive (set_positive [] ''limit'' limit)
                     ''offset'' offset) ''device_id'' deviceID
      in if params \<noteq> [] then ''/documents'' @ ''?'' @ Values_Encode params else ''/documents'')"

definition ListDocuments ::
  "env \<Rightarrow> (string \<Rightarrow> json_error + 'a) \<Rightarrow> Client \<Rightarrow> int \<Rightarrow> int \<Rightarrow> string
   \<Rightarrow> Request list \<times> (error + 'a)" where
  "ListDocuments e resp c limit offset deviceID =
     get e c (ListDocuments_path limit offset deviceID) resp"

definition GetDocument ::
  "env \<Rightarrow> (string \<Rightarrow> json_error + 'a) \<Rightarrow> Client \<Rightarrow> string \<Rightarrow> Request list \<times> (error + 'a)" where
  "GetDocument e resp c ident = get e c (''/documents/'' @ ident) resp"

text \<open>
  The filename taken from the \<^verbatim>\<open>Content-Disposition\<close> header in \<^verbatim>\<open>DownloadDocument\<close>:
  \<^verbatim>\<open>if idx := len("attachment; filename="); len(cd) > idx { filename = cd[idx:];
  filename = filename[1 : len(filename)-1] }\<close>, inside \<^verbatim>\<open>if cd != ""\<close>.
\<close>

definition DownloadDocument_filename :: "string \<Rightarrow> panic + string" where
  "DownloadDocument_filename cd =
     (if cd \<noteq> [] then
        (let idx = int (length ''attachment; filename='') in
         if idx < int (length cd) then
           (case slice cd idx (int (length cd)) of
              Inl p \<Rightarrow> Inl p
            | Inr filename \<Rightarrow> slice filename 1 (int (length filename) - 1))
         else Inr [])
      else Inr [])"

text \<open>
  \<^verbatim>\<open>func (c *Client) DownloadDocument(id string) (io.ReadCloser, string, error)\<close>: the
  body, still to be read, and the filename; or the error; or a panic.
\<close>

definition DownloadDocument ::
  "env \<Rightarrow> Client \<Rightarrow> string \<Rightarrow> Request list \<times> (panic + (error + reader \<times> string))" where
  "DownloadDocument e c ident =
     (case NewRequest e ''GET''
             (baseURL c @ ''/api/'' @ APIVersion @ ''/documents/'' @ ident @ ''/download'') of
        Inl msg \<Rightarrow> ([], Inr (Inl (CreateRequestError msg)))
      | Inr req0 \<Rightarrow>
          (let req = req0\<lparr>ReqHeader := Header_Set (ReqHeader req0) ''X-API-Key'' (apiKey c)\<rparr> in
           case RoundTrip e req of
             Inl msg \<Rightarrow> ([req], Inr (Inl (RequestError msg)))
           | Inr resp \<Rightarrow>
               if StatusCode resp \<noteq> 200 then
                 ([req], Inr (Inl (APIError (StatusCode resp) (ReadAll (Body resp)))))
               else
                 (case DownloadDocument_filename (Header_Get (RespHeader resp) ''Content-Disposition'') of
                    Inl p \<Rightarrow> ([req], Inl p)
                  | Inr filename \<Rightarrow> ([req], Inr (Inr (Body resp, filename))))))"

section \<open>Package text/tabwriter, as \<open>Table\<close> sets it up\<close>

text \<open>
  \<^verbatim>\<open>tabwriter.NewWriter(w.out, 0, 0, 2, ' ', 0)\<close>: minimal cell width 0, padding 2, padding
  with spaces, left-aligned, no flags. A cell is its bytes and its width in runes.
\<close>

type_synonym cell = "string \<times> int"

definition padding :: int where
  "padding = 2"

record tabwriter =
  lines :: "cell list list"
  cell_text :: string
  cell_width :: int
  uncounted :: string
  in_escape :: bool
  written :: string

text \<open>The writer after \<^verbatim>\<open>reset\<close>: one line with no cell, which is never empty of lines.\<close>

definition tw_init :: "string \<Rightarrow> tabwriter" where
  "tw_init w = \<lparr>lines = [[]], cell_text = [], cell_width = 0, uncounted = [],
                in_escape = False, written = w\<rparr>"

definition updateWidth :: "tabwriter \<Rightarrow> tabwriter" where
  "updateWidth b = b\<lparr>cell_width := cell_width b + int (RuneCount (uncounted b)), uncounted := []\<rparr>"

definition add_byte :: "tabwriter \<Rightarrow> char \<Rightarrow> tabwriter" where
  "add_byte b c = b\<lparr>cell_text := cell_text b @ [c], uncounted := uncounted b @ [c]\<rparr>"

text \<open>\<^verbatim>\<open>terminateCell\<close>: the cell joins the last line.\<close>

definition terminateCell :: "tabwriter \<Rightarrow> tabwriter" where
  "terminateCell b =
     b\<lparr>lines := butlast (lines b) @ [last (lines b) @ [(cell_text b, cell_width b)]],
       cell_text := [], cell_width := 0, uncounted := []\<rparr>"

definition endEscape :: "tabwriter \<Rightarrow> tabwriter" where
  "endEscape b = (let b' = updateWidth b in b'\<lparr>cell_width := cell_width b' - 2, in_escape := False\<rparr>)"

text \<open>
  \<^verbatim>\<open>writeLines\<close> for one line: a cell that has a column is padded to the width of the
  column; every line but the last one buffered ends with a newline.
\<close>

fun writeCells :: "int list \<Rightarrow> cell list \<Rightarrow> string" where
  "writeCells ws [] = []"
| "writeCells [] ((t, w) # cs) = t @ writeCells [] cs"
| "writeCells (cw # ws) ((t, w) # cs) = t @ replicate (nat (cw - w)) (CHR '' '') @ writeCells ws cs"

definition writeLines :: "int list \<Rightarrow> (cell list \<times> bool) list \<Rightarrow> string" where
  "writeLines ws ls =
     concat (map (\<lambda>(cs, is_last). writeCells ws cs @ (if is_last then [] else [CHR 0x0A])) ls)"

text \<open>A line has a cell in column \<open>k\<close> when more cells follow that cell.\<close>

definition in_column :: "nat \<Rightarrow> cell list \<times> bool \<Rightarrow> bool" where
  "in_column k l = (Suc k < length (fst l))"

definition column_width :: "nat \<Rightarrow> (cell list \<times> bool) list \<Rightarrow> int" where
  "column_width k blk = fold (\<lambda>l width. max width (snd (fst l ! k) + padding)) blk 0"

text \<open>
  \<^verbatim>\<open>format\<close>: the lines before a column block are written with the widths known; the
  block, a run of lines with a cell in this column, is formatted with its width added;
  then the rest.
\<close>

function format :: "int list \<Rightarrow> (cell list \<times> bool) list \<Rightarrow> string" where
  "format ws ls =
     (let k = length ws;
          rest = dropWhile (\<lambda>l. \<not> in_column k l) ls
      in writeLines ws (takeWhile (\<lambda>l. \<not> in_column k l) ls) @
         (if rest = [] then []
          else format (ws @ [column_width k (takeWhile (in_column k) rest)])
                 (takeWhile (in_column k) rest)
               @ format ws (dropWhile (in_column k) rest)))"
  by pat_completeness auto
termination
proof (relation "measure (\<lambda>(ws, ls). sum_list (map (\<lambda>l. Suc (length (fst l) - length ws)) ls))",
    goal_cases)
  case 1
  show ?case by simp
next
  case (2 ws ls k rest)
  let ?f = "\<lambda>n (l :: cell list \<times> bool). Suc (length (fst l) - n)"
  let ?blk = "takeWhile (in_column k) rest"
  have k: "k = length ws" using 2 by simp
  have ne: "?blk \<noteq> []"
  proof -
    from 2 have r: "rest = dropWhile (\<lambda>l. \<not> in_column k l) ls" "rest \<noteq> []" by simp_all
    with hd_dropWhile [of "\<lambda>l. \<not> in_column k l" ls] have "in_column k (hd rest)" by simp
    with r(2) show ?thesis by (cases rest) simp_all
  qed
  have "\<forall>l \<in> set ?blk. ?f (Suc k) l < ?f k l"
    by (auto simp add: in_column_def dest!: set_takeWhileD)
  then have "sum_list (map (?f (Suc k)) ?blk) < sum_list (map (?f k) ?blk)"
    using ne by (intro sum_list_strict_mono) auto
  also have "\<dots> \<le> sum_list (map (?f k) ?blk) + sum_list (map (?f k) (dropWhile (in_column k) rest))"
    by simp
  also have "\<dots> = sum_list (map (?f k) rest)"
    using sum_list.append [of "map (?f k) ?blk" "map (?f k) (dropWhile (in_column k) rest)"]
    by (simp only: map_append [symmetric] takeWhile_dropWhile_id)
  also have "\<dots> \<le> sum_list (map (?f k) (takeWhile (\<lambda>l. \<not> in_column k l) ls))
      + sum_list (map (?f k) rest)"
    by simp
  also have "\<dots> = sum_list (map (?f k) ls)"
    using sum_list.append [of "map (?f k) (takeWhile (\<lambda>l. \<not> in_column k l) ls)" "map (?f k) rest"] 2
    by (simp only: map_append [symmetric] takeWhile_dropWhile_id)
  finally show ?case using k by simp
next
  case (3 ws ls k rest)
  let ?f = "\<lambda>(l :: cell list \<times> bool). Suc (length (fst l) - k)"
  let ?blk = "takeWhile (in_column k) rest"
  have k: "k = length ws" using 3 by simp
  have ne: "?blk \<noteq> []"
  proof -
    from 3 have r: "rest = dropWhile (\<lambda>l. \<not> in_column k l) ls" "rest \<noteq> []" by simp_all
    with hd_dropWhile [of "\<lambda>l. \<not> in_column k l" ls] have "in_column k (hd rest)" by simp
    with r(2) show ?thesis by (cases rest) simp_all
  qed
  then have "0 < sum_list (map ?f ?blk)" by (cases ?blk) auto
  then have "sum_list (map ?f (dropWhile (in_column k) rest))
      < sum_list (map ?f ?blk) + sum_list (map ?f (dropWhile (in_column k) rest))"
    by simp
  also have "\<dots> = sum_list (map ?f rest)"
    using sum_list.append [of "map ?f ?blk" "map ?f (dropWhile (in_column k) rest)"]
    by (simp only: map_append [symmetric] takeWhile_dropWhile_id)
  also have "\<dots> \<le> sum_list (map ?f (takeWhile (\<lambda>l. \<not> in_column k l) ls))
      + sum_list (map ?f rest)"
    by simp
  also have "\<dots> = sum_list (map ?f ls)"
    using sum_list.append [of "map ?f (takeWhile (\<lambda>l. \<not> in_column k l) ls)" "map ?f rest"] 3
    by (simp only: map_append [symmetric] takeWhile_dropWhile_id)
  finally show ?case using k by simp
qed

declare format.simps [simp del]

text \<open>
  \<^verbatim>\<open>flushNoDefers\<close>: a cell that holds text is closed, the escape it may be in as well;
  all lines are formatted from column 0, the last of them being the last buffered line;
  then the writer is reset.
\<close>

definition mark_last :: "cell list list \<Rightarrow> (cell list \<times> bool) list" where
  "mark_last ls = zip ls (replicate (length ls - 1) False @ [True])"

definition flush :: "tabwriter \<Rightarrow> tabwriter" where
  "flush b =
     (let b1 = (if cell_text b \<noteq> [] then terminateCell (if in_escape b then endEscape b else b)
                else b)
      in tw_init (written b1 @ format [] (mark_last (lines b1))))"

text \<open>
  \<^verbatim>\<open>Write\<close>, byte by byte. Outside an escape a tab or a vertical tab ends the cell, a
  newline or a form feed ends the cell and the line, and the writer is flushed after a
  form feed or after a line of one cell; the byte \<open>0xFF\<close> opens an escape, which the next
  \<open>0xFF\<close> closes, and the text between them is kept as it is.
\<close>

definition write_byte :: "tabwriter \<Rightarrow> char \<Rightarrow> tabwriter" where
  "write_byte b c =
     (if in_escape b then
        (if c = CHR 0xFF then endEscape (add_byte b c) else add_byte b c)
      else if c = CHR 0x09 \<or> c = CHR 0x0B then terminateCell (updateWidth b)
      else if c = CHR 0x0A \<or> c = CHR 0x0C then
        (let b1 = terminateCell (updateWidth b);
             ncells = length (last (lines b1));
             b2 = b1\<lparr>lines := lines b1 @ [[]]\<rparr>
         in if c = CHR 0x0C \<or> ncells = 1 then flush b2 else b2)
      else if c = CHR 0xFF then (add_byte (updateWidth b) c)\<lparr>in_escape := True\<rparr>
      else add_byte b c)"

definition tw_Write :: "tabwriter \<Rightarrow> string \<Rightarrow> tabwriter" where
  "tw_Write b s = foldl write_byte b s"

section \<open>Package output: the Writer (internal/output/output.go)\<close>

definition FormatTable :: string where "FormatTable = ''table''"
definition FormatJSON :: string where "FormatJSON = ''json''"
definition FormatText :: string where "FormatText = ''text''"

text \<open>The field \<open>out\<close> is \<^verbatim>\<open>os.Stdout\<close>: here, the bytes written to it so far.\<close>

record Writer =
  format_of :: string
  out :: string

text \<open>
  \<^verbatim>\<open>strings.ToLower\<close>. A string of ASCII bytes has its upper-case letters replaced. Any
  other string is decoded rune by rune, an ill-formed byte being \<open>U+FFFD\<close>, each rune is
  mapped by \<^verbatim>\<open>unicode.ToLower\<close> and encoded again. The case table of Unicode beyond ASCII
  is the argument \<open>lower\<close>.
\<close>

fun runes :: "string \<Rightarrow> nat list" where
  "runes [] = []"
| "runes (c # cs) = fst (DecodeRune (c # cs)) # runes (drop (snd (DecodeRune (c # cs)) - 1) cs)"

definition unicode_ToLower :: "(nat \<Rightarrow> nat) \<Rightarrow> nat \<Rightarrow> nat" where
  "unicode_ToLower lower r = (if r < 128 then (if 65 \<le> r \<and> r \<le> 90 then r + 32 else r) else lower r)"

definition ToLower :: "(nat \<Rightarrow> nat) \<Rightarrow> string \<Rightarrow> string" where
  "ToLower lower s =
     (if list_all (\<lambda>c. byte c < 128) s then map ascii_lower s
      else concat (map (\<lambda>r. EncodeRune (unicode_ToLower lower r)) (runes s)))"

text \<open>\<^verbatim>\<open>func New(format string) *Writer\<close>.\<close>

definition New :: "(nat \<Rightarrow> nat) \<Rightarrow> string \<Rightarrow> Writer" where
  "New lower fmt =
     (let f = ToLower lower fmt
      in \<lparr>format_of = (if f = FormatJSON \<or> f = FormatText then f else FormatTable), out = []\<rparr>)"

definition Format :: "Writer \<Rightarrow> string" where
  "Format w = format_of w"

definition IsJSON :: "Writer \<Rightarrow> bool" where
  "IsJSON w = (format_of w = FormatJSON)"

text \<open>
  \<^verbatim>\<open>func (w *Writer) JSON(data interface{}) error\<close>; \<open>marshal\<close> is the indented encoding of
  the value with its final newline, or the error of the encoder.
\<close>

definition JSON :: "('a \<Rightarrow> string + string) \<Rightarrow> Writer \<Rightarrow> 'a \<Rightarrow> string option \<times> Writer" where
  "JSON marshal w data =
     (case marshal data of
        Inl msg \<Rightarrow> (Some msg, w)
      | Inr text \<Rightarrow> (None, w\<lparr>out := out w @ text\<rparr>))"

text \<open>\<^verbatim>\<open>Text\<close> and \<^verbatim>\<open>Println\<close>, on the text already formatted.\<close>

definition Text :: "Writer \<Rightarrow> string \<Rightarrow> Writer" where
  "Text w s = w\<lparr>out := out w @ s\<rparr>"

definition Println :: "Writer \<Rightarrow> string \<Rightarrow> Writer" where
  "Println w s = w\<lparr>out := out w @ s @ [CHR 0x0A]\<rparr>"

text \<open>
  \<^verbatim>\<open>func (w *Writer) Table(headers []string, rows [][]string)\<close>: the headers joined by
  tabs, a rule of hyphens as long as the headers joined by two spaces, the rows joined by
  tabs, each on a line, through a tabwriter that is flushed at the end.
\<close>

definition Table :: "Writer \<Rightarrow> string list \<Rightarrow> string list list \<Rightarrow> Writer" where
  "Table w headers rows =
     (let tw0 = tw_init (out w);
          tw1 = tw_Write tw0 (Join headers [CHR 0x09] @ [CHR 0x0A]);
          tw2 = tw_Write tw1 (replicate (length (Join headers ''  '')) (CHR ''-'') @ [CHR 0x0A]);
          tw3 = foldl (\<lambda>tw row. tw_Write tw (Join row [CHR 0x09] @ [CHR 0x0A])) tw2 rows
      in w\<lparr>out := written (flush tw3)\<rparr>)"

section \<open>The responses (internal/client/client.go)\<close>

text \<open>
  The structs of the client. A Go \<^verbatim>\<open>int\<close> or \<^verbatim>\<open>int64\<close> is a 64-bit word, read as signed.
  Fields of different structs that share a name carry the struct as a prefix here.
\<close>

record SearchResult =
  sr_DeviceID :: string
  sr_Name :: string
  sr_Domain :: string
  sr_Type :: string
  sr_Path :: string
  sr_Score :: float64
  sr_Snippet :: string

record SearchResponse =
  Results :: "SearchResult list"
  sr_Total :: "64 word"
  Query :: string

record Device =
  dev_ID :: string
  dev_Domain :: string
  dev_Type :: string
  dev_Name :: string
  dev_Path :: string
  dev_Content :: string
  dev_Metadata :: "(string \<times> json) list"
  dev_IndexedAt :: string

record DevicesResponse =
  dev_Data :: "Device list"
  dev_Total :: "64 word"
  dev_Limit :: "64 word"
  dev_Offset :: "64 word"

record Document =
  doc_ID :: string
  doc_DeviceID :: string
  doc_Path :: string
  doc_Filename :: string
  doc_MimeType :: string
  doc_SizeBytes :: "64 word"
  doc_Checksum :: string
  doc_IndexedAt :: string

record DocumentsResponse =
  doc_Data :: "Document list"
  doc_Total :: "64 word"
  doc_Limit :: "64 word"
  doc_Offset :: "64 word"

section \<open>The commands (cmd/manuals/cmd)\<close>

text \<open>
  A command returns its error, if any, and the writer with what it has printed; or it
  panics. The errors are the \<^verbatim>\<open>fmt.Errorf\<close> wrappers of the commands and the error of the
  JSON encoder.
\<close>

datatype cmd_error =
    SearchFailed error
  | ListDevicesFailed error
  | GetDeviceFailed error
  | ListDocumentsFailed error
  | GetDocumentFailed error
  | EncodeFailed string

type_synonym cmd_result = "panic + cmd_error option \<times> Writer"

definition ret_JSON :: "string option \<times> Writer \<Rightarrow> cmd_result" where
  "ret_JSON r = (case r of (e, w) \<Rightarrow> Inr (map_option EncodeFailed e, w))"

text \<open>A loop that fills \<open>rows[i]\<close> for each element in turn: the first panic ends it.\<close>

fun build_rows :: "('a \<Rightarrow> panic + string list) \<Rightarrow> 'a list \<Rightarrow> panic + string list list" where
  "build_rows f [] = Inr []"
| "build_rows f (x # xs) =
     (case f x of
        Inl p \<Rightarrow> Inl p
      | Inr row \<Rightarrow> (case build_rows f xs of Inl p \<Rightarrow> Inl p | Inr rows \<Rightarrow> Inr (row # rows)))"

text \<open>
  \<open>len(xs)\<close> as a Go \<^verbatim>\<open>int\<close>. The commands take \<open>id := args[0]\<close> after cobra has checked
  \<^verbatim>\<open>ExactArgs(1)\<close>; on an empty list the index would panic.
\<close>

definition len :: "'a list \<Rightarrow> 64 word" where
  "len xs = of_nat (length xs)"

subsection \<open>search\<close>

text \<open>
  The row of one result:
  \<^verbatim>\<open>{r.DeviceID[:8], output.Truncate(r.Name, 40), r.Domain, r.Type, fmt.Sprintf("%.2f", r.Score)}\<close>.
\<close>

definition search_row :: "SearchResult \<Rightarrow> panic + string list" where
  "search_row r =
     (case slice (sr_DeviceID r) 0 8 of
        Inl p \<Rightarrow> Inl p
      | Inr ident \<Rightarrow>
          (case Truncate (sr_Name r) 40 of
             Inl p \<Rightarrow> Inl p
           | Inr name \<Rightarrow> Inr [ident, name, sr_Domain r, sr_Type r, fmt_f 2 (sr_Score r)]))"

text \<open>
  The loop over the snippets: it stops at the fourth result, and prints
  \<^verbatim>\<open>"\n[%s] %s\n"\<close> and \<^verbatim>\<open>"  %s\n"\<close> for a result whose snippet is not empty.
\<close>

fun search_snippets :: "nat \<Rightarrow> SearchResult list \<Rightarrow> Writer \<Rightarrow> panic + Writer" where
  "search_snippets i [] w = Inr w"
| "search_snippets i (r # rs) w =
     (if 3 \<le> i then Inr w
      else if sr_Snippet r \<noteq> [] then
        (case slice (sr_DeviceID r) 0 8 of
           Inl p \<Rightarrow> Inl p
         | Inr ident \<Rightarrow>
             (case Truncate (sr_Snippet r) 200 of
                Inl p \<Rightarrow> Inl p
              | Inr snippet \<Rightarrow>
                  search_snippets (Suc i) rs
                    (Text (Text w ([CHR 0x0A] @ ''['' @ ident @ ''] '' @ sr_Name r @ [CHR 0x0A]))
                       (''  '' @ snippet @ [CHR 0x0A]))))
      else search_snippets (Suc i) rs w)"

text \<open>
  \<^verbatim>\<open>searchCmd.RunE\<close> from the test \<^verbatim>\<open>out.IsJSON()\<close> on; \<open>outputFormat\<close> is the global of
  the flag \<open>--output\<close>.
\<close>

definition search_render ::
  "(SearchResponse \<Rightarrow> string + string) \<Rightarrow> string \<Rightarrow> Writer \<Rightarrow> SearchResponse \<Rightarrow> cmd_result" where
  "search_render marshal outputFormat w results =
     (if IsJSON w then ret_JSON (JSON marshal w results)
      else if length (Results results) = 0 then Inr (None, Println w ''No results found.'')
      else
        (let w1 = Text w (''Found '' @ itoa (sint (sr_Total results)) @ '' results for ''
                          @ [CHR 0x22] @ Query results @ [CHR 0x22] @ '':'' @ [CHR 0x0A, CHR 0x0A])
         in case build_rows search_row (Results results) of
              Inl p \<Rightarrow> Inl p
            | Inr rows \<Rightarrow>
                (let w2 = Table w1 [''ID'', ''NAME'', ''DOMAIN'', ''TYPE'', ''SCORE''] rows
                 in if 0 < length (Results results) \<and> outputFormat \<noteq> ''table'' then
                      (case search_snippets 0 (Results results)
                              (Println w2 ([CHR 0x0A] @ ''--- Snippets ---'')) of
                         Inl p \<Rightarrow> Inl p
                       | Inr w3 \<Rightarrow> Inr (None, w3))
                    else Inr (None, w2))))"

definition searchCmd ::
  "env \<Rightarrow> (string \<Rightarrow> json_error + SearchResponse) \<Rightarrow> (SearchResponse \<Rightarrow> string + string)
   \<Rightarrow> Client \<Rightarrow> Writer \<Rightarrow> string \<Rightarrow> int \<Rightarrow> string list \<Rightarrow> cmd_result" where
  "searchCmd e unmarshal marshal apiClient w outputFormat searchLimit args =
     (case snd (Search e unmarshal apiClient (Join args '' '') searchLimit) of
        Inl er \<Rightarrow> Inr (Some (SearchFailed er), w)
      | Inr results \<Rightarrow> search_render marshal outputFormat w results)"

subsection \<open>devices list, devices get\<close>

definition device_row :: "Device \<Rightarrow> panic + string list" where
  "device_row d =
     (case slice (dev_ID d) 0 8 of
        Inl p \<Rightarrow> Inl p
      | Inr ident \<Rightarrow>
          (case Truncate (dev_Name d) 45 of
             Inl p \<Rightarrow> Inl p
           | Inr name \<Rightarrow> Inr [ident, name, dev_Domain d, dev_Type d]))"

definition devicesList_render ::
  "(DevicesResponse \<Rightarrow> string + string) \<Rightarrow> Writer \<Rightarrow> DevicesResponse \<Rightarrow> cmd_result" where
  "devicesList_render marshal w result =
     (if IsJSON w then ret_JSON (JSON marshal w result)
      else if length (dev_Data result) = 0 then Inr (None, Println w ''No devices found.'')
      else
        (let w1 = Text w (''Showing '' @ itoa (sint (len (dev_Data result))) @ '' of ''
                          @ itoa (sint (dev_Total result)) @ '' devices:'' @ [CHR 0x0A, CHR 0x0A])
         in case build_rows device_row (dev_Data result) of
              Inl p \<Rightarrow> Inl p
            | Inr rows \<Rightarrow>
                (let w2 = Table w1 [''ID'', ''NAME'', ''DOMAIN'', ''TYPE''] rows
                 in if sint (len (dev_Data result)) < sint (dev_Total result) then
                      Inr (None, Text w2 ([CHR 0x0A] @ ''Use --offset ''
                             @ itoa (sint (dev_Offset result + len (dev_Data result)))
                             @ '' to see more results.'' @ [CHR 0x0A]))
                    else Inr (None, w2))))"

definition devicesListCmd ::
  "env \<Rightarrow> (string \<Rightarrow> json_error + DevicesResponse) \<Rightarrow> (DevicesResponse \<Rightarrow> string + string)
   \<Rightarrow> Client \<Rightarrow> Writer \<Rightarrow> int \<Rightarrow> int \<Rightarrow> string \<Rightarrow> string \<Rightarrow> cmd_result" where
  "devicesListCmd e unmarshal marshal apiClient w devicesLimit devicesOffset devicesDomain devicesType =
     (case snd (ListDevices e unmarshal apiClient devicesLimit devicesOffset devicesDomain
                  devicesType) of
        Inl er \<Rightarrow> Inr (Some (ListDevicesFailed er), w)
      | Inr result \<Rightarrow> devicesList_render marshal w result)"

definition devicesGet_render ::
  "(Device \<Rightarrow> string + string) \<Rightarrow> Writer \<Rightarrow> Device \<Rightarrow> cmd_result" where
  "devicesGet_render marshal w device =
     (if IsJSON w then ret_JSON (JSON marshal w device)
      else
        (let w1 = Text w (''Device: '' @ dev_Name device @ [CHR 0x0A]);
             w2 = Text w1 (''  ID:        '' @ dev_ID device @ [CHR 0x0A]);
             w3 = Text w2 (''  Domain:    '' @ dev_Domain device @ [CHR 0x0A]);
             w4 = Text w3 (''  Type:      '' @ dev_Type device @ [CHR 0x0A]);
             w5 = Text w4 (''  Path:      '' @ dev_Path device @ [CHR 0x0A]);
             w6 = Text w5 (''  Indexed:   '' @ dev_IndexedAt device @ [CHR 0x0A])
         in if dev_Content device \<noteq> [] then
              Inr (None, Text w6 ([CHR 0x0A] @ ''--- Content ---'' @ [CHR 0x0A]
                                   @ dev_Content device @ [CHR 0x0A]))
            else Inr (None, w6)))"

definition devicesGetCmd ::
  "env \<Rightarrow> (string \<Rightarrow> json_error + Device) \<Rightarrow> (Device \<Rightarrow> string + string)
   \<Rightarrow> Client \<Rightarrow> Writer \<Rightarrow> string list \<Rightarrow> cmd_result" where
  "devicesGetCmd e unmarshal marshal apiClient w args =
     (case args of
        [] \<Rightarrow> Inl IndexOutOfRange
      | ident # _ \<Rightarrow>
          (case snd (GetDevice e unmarshal apiClient ident) of
             Inl er \<Rightarrow> Inr (Some (GetDeviceFailed er), w)
           | Inr device \<Rightarrow> devicesGet_render marshal w device))"

subsection \<open>documents list, documents get\<close>

definition document_row :: "Document \<Rightarrow> panic + string list" where
  "document_row d =
     (case slice (doc_ID d) 0 8 of
        Inl p \<Rightarrow> Inl p
      | Inr ident \<Rightarrow>
          (case Truncate (doc_Filename d) 45 of
             Inl p \<Rightarrow> Inl p
           | Inr name \<Rightarrow>
               (case FormatSize (doc_SizeBytes d) of
                  Inl p \<Rightarrow> Inl p
                | Inr sz \<Rightarrow> Inr [ident, name, doc_MimeType d, sz])))"

definition documentsList_render ::
  "(DocumentsResponse \<Rightarrow> string + string) \<Rightarrow> Writer \<Rightarrow> DocumentsResponse \<Rightarrow> cmd_result" where
  "documentsList_render marshal w result =
     (if IsJSON w then ret_JSON (JSON marshal w result)
      else if length (doc_Data result) = 0 then Inr (None, Println w ''No documents found.'')
      else
        (let w1 = Text w (''Showing '' @ itoa (sint (len (doc_Data result))) @ '' of ''
                          @ itoa (sint (doc_Total result)) @ '' documents:'' @ [CHR 0x0A, CHR 0x0A])
         in case build_rows document_row (doc_Data result) of
              Inl p \<Rightarrow> Inl p
            | Inr rows \<Rightarrow>
                (let w2 = Table w1 [''ID'', ''FILENAME'', ''TYPE'', ''SIZE''] rows
                 in if sint (len (doc_Data result)) < sint (doc_Total result) then
                      Inr (None, Text w2 ([CHR 0x0A] @ ''Use --offset ''
                             @ itoa (sint (doc_Offset result + len (doc_Data result)))
                             @ '' to see more results.'' @ [CHR 0x0A]))
                    else Inr (None, w2))))"

definition documentsListCmd ::
  "env \<Rightarrow> (string \<Rightarrow> json_error + DocumentsResponse) \<Rightarrow> (DocumentsResponse \<Rightarrow> string + string)
   \<Rightarrow> Client \<Rightarrow> Writer \<Rightarrow> int \<Rightarrow> int \<Rightarrow> string \<Rightarrow> cmd_result" where
  "documentsListCmd e unmarshal marshal apiClient w docsLimit docsOffset docsDeviceID =
     (case snd (ListDocuments e unmarshal apiClient docsLimit docsOffset docsDeviceID) of
        Inl er \<Rightarrow> Inr (Some (ListDocumentsFailed er), w)
      | Inr result \<Rightarrow> documentsList_render marshal w result)"

definition documentsGet_render ::
  "(Document \<Rightarrow> string + string) \<Rightarrow> Writer \<Rightarrow> Document \<Rightarrow> cmd_result" where
  "documentsGet_render marshal w doc =
     (if IsJSON w then ret_JSON (JSON marshal w doc)
      else
        (let w1 = Text w (''Document: '' @ doc_Filename doc @ [CHR 0x0A]);
             w2 = Text w1 (''  ID:        '' @ doc_ID doc @ [CHR 0x0A]);
             w3 = Text w2 (''  Device:    '' @ doc_DeviceID doc @ [CHR 0x0A]);
             w4 = Text w3 (''  Path:      '' @ doc_Path doc @ [CHR 0x0A]);
             w5 = Text w4 (''  Type:      '' @ doc_MimeType doc @ [CHR 0x0A])
         in case FormatSize (doc_SizeBytes doc) of
              Inl p \<Rightarrow> Inl p
            | Inr sz \<Rightarrow>
                (let w6 = Text w5 (''  Size:      '' @ sz @ [CHR 0x0A])
                 in case slice (doc_Checksum doc) 0 16 of
                      Inl p \<Rightarrow> Inl p
                    | Inr checksum \<Rightarrow>
                        Inr (None,
                             Text (Text w6 (''  Checksum:  '' @ (checksum @ ''...'') @ [CHR 0x0A]))
                               (''  Indexed:   '' @ doc_IndexedAt doc @ [CHR 0x0A])))))"

definition documentsGetCmd ::
  "env \<Rightarrow> (string \<Rightarrow> json_error + Document) \<Rightarrow> (Document \<Rightarrow> string + string)
   \<Rightarrow> Client \<Rightarrow> Writer \<Rightarrow> string list \<Rightarrow> cmd_result" where
  "documentsGetCmd e unmarshal marshal apiClient w args =
     (case args of
        [] \<Rightarrow> Inl IndexOutOfRange
      | ident # _ \<Rightarrow>
          (case snd (GetDocument e unmarshal apiClient ident) of
             Inl er \<Rightarrow> Inr (Some (GetDocumentFailed er), w)
           | Inr doc \<Rightarrow> documentsGet_render marshal w doc))"

section \<open>Unmarshalling a search response\<close>

text \<open>
  \<^verbatim>\<open>strconv.ParseInt(s, 10, 64)\<close> on a number literal of JSON: an optional minus sign and
  digits only, with a value in the int64 range.
\<close>

definition digits_value :: "string \<Rightarrow> nat" where
  "digits_value ds = foldl (\<lambda>a c. 10 * a + (byte c - 48)) 0 ds"

definition ParseInt :: "string \<Rightarrow> int option" where
  "ParseInt s =
     (let neg = (s \<noteq> [] \<and> hd s = CHR ''-'');
          ds = (if neg then tl s else s);
          v = (if neg then - int (digits_value ds) else int (digits_value ds))
      in if ds \<noteq> [] \<and> list_all is_digit ds \<and> - (2 ^ 63) \<le> v \<and> v < 2 ^ 63 then Some v
         else None)"

text \<open>
  \<^verbatim>\<open>strconv.ParseFloat(s, 64)\<close> on a number literal of JSON: the float64 nearest to the
  decimal value; \<open>None\<close> when that is infinite, which is the range error.
\<close>

definition ParseFloat :: "string \<Rightarrow> float64 option" where
  "ParseFloat s =
     (let neg = (s \<noteq> [] \<and> hd s = CHR ''-'');
          r0 = (if neg then tl s else s);
          ip = takeWhile is_digit r0;
          r1 = dropWhile is_digit r0;
          has_frac = (r1 \<noteq> [] \<and> hd r1 = CHR ''.'');
          fp = (if has_frac then takeWhile is_digit (tl r1) else []);
          r2 = (if has_frac then dropWhile is_digit (tl r1) else r1);
          ex = (case r2 of
                  [] \<Rightarrow> 0
                | c # r \<Rightarrow>
                    (case r of
                       [] \<Rightarrow> 0
                     | sg # ds \<Rightarrow>
                         if sg = CHR ''-'' then - int (digits_value ds)
                         else if sg = CHR ''+'' then int (digits_value ds)
                         else int (digits_value r)));
          mant = digits_value (ip @ fp);
          e10 = ex - int (length fp);
          x = (if 0 \<le> e10 then round_float64 neg (mant * 10 ^ nat e10) 1
               else round_float64 neg mant (10 ^ nat (- e10)))
      in case x of Finite sg m e \<Rightarrow> Some x | _ \<Rightarrow> None)"

text \<open>Storing a value into a field of type \<^verbatim>\<open>int\<close> and of type \<^verbatim>\<open>float64\<close>.\<close>

fun store_int :: "json \<Rightarrow> 64 word \<Rightarrow> json_error option \<times> 64 word" where
  "store_int (JNumber l) cur =
     (case ParseInt l of
        Some v \<Rightarrow> (None, word_of_int v)
      | None \<Rightarrow> (Some (UnmarshalTypeError (''number '' @ l)), cur))"
| "store_int JNull cur = (None, cur)"
| "store_int (JBool b) cur = (Some (UnmarshalTypeError ''bool''), cur)"
| "store_int (JString raw) cur = (Some (UnmarshalTypeError ''string''), cur)"
| "store_int (JArray es) cur = (Some (UnmarshalTypeError ''array''), cur)"
| "store_int (JObject ms) cur = (Some (UnmarshalTypeError ''object''), cur)"

fun store_float64 :: "json \<Rightarrow> float64 \<Rightarrow> json_error option \<times> float64" where
  "store_float64 (JNumber l) cur =
     (case ParseFloat l of
        Some x \<Rightarrow> (None, x)
      | None \<Rightarrow> (Some (UnmarshalTypeError (''number '' @ l)), cur))"
| "store_float64 JNull cur = (None, cur)"
| "store_float64 (JBool b) cur = (Some (UnmarshalTypeError ''bool''), cur)"
| "store_float64 (JString raw) cur = (Some (UnmarshalTypeError ''string''), cur)"
| "store_float64 (JArray es) cur = (Some (UnmarshalTypeError ''array''), cur)"
| "store_float64 (JObject ms) cur = (Some (UnmarshalTypeError ''object''), cur)"

text \<open>
  The field a key selects among the names of a struct: the name equal to the key, or
  else the first name equal to it after case folding.
\<close>

definition find_field :: "string list \<Rightarrow> string \<Rightarrow> string option" where
  "find_field names key =
     (if key \<in> set names then Some key else find (\<lambda>n. field_matches n key) names)"

definition zero_SearchResult :: SearchResult where
  "zero_SearchResult = \<lparr>sr_DeviceID = [], sr_Name = [], sr_Domain = [], sr_Type = [],
                         sr_Path = [], sr_Score = Finite False 0 0, sr_Snippet = []\<rparr>"

definition zero_SearchResponse :: SearchResponse where
  "zero_SearchResponse = \<lparr>Results = [], sr_Total = 0, Query = []\<rparr>"

text \<open>One member of an object stored into a \<^verbatim>\<open>SearchResult\<close>; an unknown key is skipped.\<close>

definition member_SearchResult ::
  "string \<times> json \<Rightarrow> json_error option \<times> SearchResult \<Rightarrow> json_error option \<times> SearchResult" where
  "member_SearchResult kv acc =
     (case (kv, acc) of
        ((k, v), (saved, r)) \<Rightarrow>
          (case unquote k of
             None \<Rightarrow> (first_error saved (Some (UnmarshalTypeError ''out of sync'')), r)
           | Some key \<Rightarrow>
               (case find_field [''device_id'', ''name'', ''domain'', ''type'', ''path'', ''score'',
                                 ''snippet''] key of
                  None \<Rightarrow> (saved, r)
                | Some f \<Rightarrow>
                    if f = ''score'' then
                      (case store_float64 v (sr_Score r) of
                         (e, x) \<Rightarrow> (first_error saved e, r\<lparr>sr_Score := x\<rparr>))
                    else
                      (case store_string v
                              (if f = ''device_id'' then sr_DeviceID r
                               else if f = ''name'' then sr_Name r
                               else if f = ''domain'' then sr_Domain r
                               else if f = ''type'' then sr_Type r
                               else if f = ''path'' then sr_Path r
                               else sr_Snippet r) of
                         (e, t) \<Rightarrow>
                           (first_error saved e,
                            if f = ''device_id'' then r\<lparr>sr_DeviceID := t\<rparr>
                            else if f = ''name'' then r\<lparr>sr_Name := t\<rparr>
                            else if f = ''domain'' then r\<lparr>sr_Domain := t\<rparr>
                            else if f = ''type'' then r\<lparr>sr_Type := t\<rparr>
                            else if f = ''path'' then r\<lparr>sr_Path := t\<rparr>
                            else r\<lparr>sr_Snippet := t\<rparr>)))))"

text \<open>A value stored into a \<^verbatim>\<open>SearchResult\<close>: an object fills it, \<open>null\<close> leaves it.\<close>

fun value_SearchResult ::
  "json \<Rightarrow> json_error option \<times> SearchResult \<Rightarrow> json_error option \<times> SearchResult" where
  "value_SearchResult (JObject ms) acc = foldl (\<lambda>a kv. member_SearchResult kv a) acc ms"
| "value_SearchResult JNull acc = acc"
| "value_SearchResult (JBool b) (saved, r) = (first_error saved (Some (UnmarshalTypeError ''bool'')), r)"
| "value_SearchResult (JNumber l) (saved, r) =
     (first_error saved (Some (UnmarshalTypeError ''number'')), r)"
| "value_SearchResult (JString raw) (saved, r) =
     (first_error saved (Some (UnmarshalTypeError ''string'')), r)"
| "value_SearchResult (JArray es) (saved, r) =
     (first_error saved (Some (UnmarshalTypeError ''array'')), r)"

text \<open>
  The elements of an array stored into the slice \<^verbatim>\<open>[]SearchResult\<close>: element \<open>i\<close> is
  decoded into the element the slice already has at \<open>i\<close>, or into a zero value.
\<close>

fun elements_SearchResult ::
  "json list \<Rightarrow> SearchResult list \<Rightarrow> json_error option \<Rightarrow> json_error option \<times> SearchResult list" where
  "elements_SearchResult [] old saved = (saved, [])"
| "elements_SearchResult (v # vs) old saved =
     (case value_SearchResult v (saved, case old of [] \<Rightarrow> zero_SearchResult | x # xs \<Rightarrow> x) of
        (saved1, r) \<Rightarrow>
          (case elements_SearchResult vs (tl old) saved1 of
             (saved2, rs) \<Rightarrow> (saved2, r # rs)))"

fun store_results ::
  "json \<Rightarrow> SearchResult list \<Rightarrow> json_error option \<Rightarrow> json_error option \<times> SearchResult list" where
  "store_results (JArray es) cur saved = elements_SearchResult es cur saved"
| "store_results JNull cur saved = (saved, [])"
| "store_results (JBool b) cur saved = (first_error saved (Some (UnmarshalTypeError ''bool'')), cur)"
| "store_results (JNumber l) cur saved =
     (first_error saved (Some (UnmarshalTypeError ''number'')), cur)"
| "store_results (JString raw) cur saved =
     (first_error saved (Some (UnmarshalTypeError ''string'')), cur)"
| "store_results (JObject ms) cur saved =
     (first_error saved (Some (UnmarshalTypeError ''object'')), cur)"

definition member_SearchResponse ::
  "string \<times> json \<Rightarrow> json_error option \<times> SearchResponse
   \<Rightarrow> json_error option \<times> SearchResponse" where
  "member_SearchResponse kv acc =
     (case (kv, acc) of
        ((k, v), (saved, r)) \<Rightarrow>
          (case unquote k of
             None \<Rightarrow> (first_error saved (Some (UnmarshalTypeError ''out of sync'')), r)
           | Some key \<Rightarrow>
               (case find_field [''results'', ''total'', ''query''] key of
                  None \<Rightarrow> (saved, r)
                | Some f \<Rightarrow>
                    if f = ''results'' then
                      (case store_results v (Results r) saved of
                         (saved1, rs) \<Rightarrow> (saved1, r\<lparr>Results := rs\<rparr>))
                    else if f = ''total'' then
                      (case store_int v (sr_Total r) of
                         (e, n) \<Rightarrow> (first_error saved e, r\<lparr>sr_Total := n\<rparr>))
                    else
                      (case store_string v (Query r) of
                         (e, t) \<Rightarrow> (first_error saved e, r\<lparr>Query := t\<rparr>)))))"

text \<open>
  \<^verbatim>\<open>Unmarshal\<close> of the bytes of a scanned value into a fresh \<^verbatim>\<open>SearchResponse\<close>: the
  first error saved is returned at the end.
\<close>

definition unmarshal_SearchResponse :: "string \<Rightarrow> json_error + SearchResponse" where
  "unmarshal_SearchResponse v =
     (case parse_json v of
        None \<Rightarrow> Inl (UnmarshalTypeError ''out of sync'')
      | Some j \<Rightarrow>
          (case (case j of
                   JObject ms \<Rightarrow>
                     foldl (\<lambda>a kv. member_SearchResponse kv a) (None, zero_SearchResponse) ms
                 | JNull \<Rightarrow> (None, zero_SearchResponse)
                 | JBool b \<Rightarrow> (Some (UnmarshalTypeError ''bool''), zero_SearchResponse)
                 | JNumber l \<Rightarrow> (Some (UnmarshalTypeError ''number''), zero_SearchResponse)
                 | JString raw \<Rightarrow> (Some (UnmarshalTypeError ''string''), zero_SearchResponse)
                 | JArray es \<Rightarrow> (Some (UnmarshalTypeError ''array''), zero_SearchResponse)) of
             (None, r) \<Rightarrow> Inr r
           | (Some e, r) \<Rightarrow> Inl e))"

section \<open>Concrete surroundings for the worked cases\<close>

text \<open>
  A server that accepts every URL and answers every request with one status, one header
  set and one body; a network on which every request fails; a client.
\<close>

definition server :: "int \<Rightarrow> Header \<Rightarrow> string list \<Rightarrow> env" where
  "server status hdr body =
     \<lparr>ParseURL = (\<lambda>u. None),
      RoundTrip = (\<lambda>r. Inr \<lparr>StatusCode = status, RespHeader = hdr,
                               Body = \<lparr>blocks = body, final = None\<rparr>\<rparr>)\<rparr>"

definition unreachable :: env where
  "unreachable = \<lparr>ParseURL = (\<lambda>u. None), RoundTrip = (\<lambda>r. Inl ''connection refused'')\<rparr>"

definition local_client :: Client where
  "local_client = New_Client ''http://localhost:8080'' ''secret''"

text \<open>A \<open>result\<close> argument for \<open>get\<close> that keeps the bytes of the value as they are.\<close>

definition raw_result :: "string \<Rightarrow> json_error + string" where
  "raw_result v = Inr v"

text \<open>An encoder that is never reached on the paths that do not print JSON.\<close>

definition marshal_none :: "'a \<Rightarrow> string + string" where
  "marshal_none v = Inl ''not encoded''"

text \<open>
  The search response of the end-to-end scenario: the score is the float64 nearest to the
  decimal \<open>0.92\<close>, the field the JSON text does not name is empty.
\<close>

definition esp32 :: SearchResult where
  "esp32 = \<lparr>sr_DeviceID = ''abc123ef...'', sr_Name = ''ESP32 Dev Board'',
             sr_Domain = ''hardware'', sr_Type = ''dev-boards'', sr_Path = [],
             sr_Score = round_float64 False 92 100, sr_Snippet = ''...''\<rparr>"

definition esp32_response :: SearchResponse where
  "esp32_response = \<lparr>Results = [esp32], sr_Total = 1, Query = ''esp32''\<rparr>"

text \<open>A device with an identifier of three bytes, and a document with a checksum of four.\<close>

definition short_device :: Device where
  "short_device = \<lparr>dev_ID = ''abc'', dev_Domain = ''hardware'', dev_Type = ''sensors'',
                    dev_Name = ''BME280'', dev_Path = [], dev_Content = [], dev_Metadata = [],
                    dev_IndexedAt = []\<rparr>"

definition short_document :: Document where
  "short_document = \<lparr>doc_ID = ''0123456789abcdef'', doc_DeviceID = ''abc'', doc_Path = [],
                      doc_Filename = ''bme280.pdf'', doc_MimeType = ''application/pdf'',
                      doc_SizeBytes = 1536, doc_Checksum = ''beef'', doc_IndexedAt = []\<rparr>"

text \<open>The JSON text of the scenario, as the specification gives it.\<close>

definition esp32_json :: string where
  \<open>esp32_json = ''{"results":[{"device_id":"abc123ef...","name":"ESP32 Dev Board","domain":"hardware","type":"dev-boards","score":0.92,"snippet":"..."}],"total":1,"query":"esp32"}''\<close>

section \<open>Properties of the output helpers\<close>

subsection \<open>Truncate\<close>

text \<open>
  Claim C4. For every string \<open>s\<close> and every \<open>maxLen \<ge> 0\<close>: a string of at most \<open>maxLen\<close>
  bytes is returned unchanged; a longer one is cut to its first \<open>maxLen\<close> bytes when
  \<open>maxLen \<le> 3\<close>, and to its first \<open>maxLen - 3\<close> bytes followed by the three bytes
  \<open>...\<close> otherwise, which is exactly \<open>maxLen\<close> bytes; the result never has more than
  \<open>maxLen\<close> bytes, and no case panics. Lengths are byte counts: \<open>string\<close> is the list
  of the bytes.
\<close>

theorem Truncate_spec:
  assumes "0 \<le> maxLen"
  shows "(int (length s) \<le> maxLen \<longrightarrow> Truncate s maxLen = Inr s)
       \<and> (maxLen < int (length s) \<and> maxLen \<le> 3 \<longrightarrow>
            Truncate s maxLen = Inr (take (nat maxLen) s))
       \<and> (maxLen < int (length s) \<and> 3 < maxLen \<longrightarrow>
            Truncate s maxLen = Inr (take (nat (maxLen - 3)) s @ ''...'')
            \<and> int (length (take (nat (maxLen - 3)) s @ ''...'')) = maxLen)
       \<and> (\<exists>r. Truncate s maxLen = Inr r \<and> int (length r) \<le> maxLen)"
  using assms by (auto simp add: Truncate_def slice_def)

theorem Truncate_spec_witness:
  "Truncate ''hello world'' 20 = Inr ''hello world''
   \<and> Truncate ''hello world'' 2 = Inr ''he''
   \<and> Truncate ''hello world'' 8 = Inr ''hello...''
   \<and> Truncate ''hello world'' 0 = Inr []"
  using Truncate_spec [of 20 "''hello world''"] Truncate_spec [of 2 "''hello world''"]
    Truncate_spec [of 8 "''hello world''"] Truncate_spec [of 0 "''hello world''"]
  by simp

subsection \<open>FormatSize\<close>

lemma wrap64_id: "0 \<le> x \<Longrightarrow> x < 2 ^ 63 \<Longrightarrow> wrap64 x = x"
  unfolding wrap64_def
  by (simp add: sint_sbintrunc' signed_take_bit_int_eq_self)

text \<open>
  The loop invariant: \<open>dv\<close> is a power of 1024 times the starting divisor, \<open>n\<close> is the
  size divided by it, and the product never leaves the int64 range.
\<close>

lemma FormatSize_loop_inv:
  "1 \<le> n \<Longrightarrow> 0 < dv \<Longrightarrow> dv * n \<le> b \<Longrightarrow> b < dv * (n + 1) \<Longrightarrow> b < 2 ^ 63 \<Longrightarrow>
   \<exists>j. FormatSize_loop n dv ex = (dv * 1024 ^ j, ex + int j)
       \<and> dv * 1024 ^ j \<le> b \<and> b < dv * 1024 ^ j * 1024"
proof (induction n dv ex rule: FormatSize_loop.induct)
  case (1 n dv ex)
  show ?case
  proof (cases "1024 \<le> n")
    case True
    have "dv * 1024 \<le> dv * n" using True 1(3) by simp
    then have dvb: "dv * 1024 \<le> b" using 1(4) by linarith
    have w: "wrap64 (dv * 1024) = dv * 1024"
      using dvb 1(3,6) by (intro wrap64_id) auto
    have n1: "1 \<le> n div 1024" using True by simp
    have "1024 * (n div 1024) \<le> n" by simp
    then have "dv * (1024 * (n div 1024)) \<le> dv * n"
      using 1(3) by (intro mult_left_mono) auto
    then have lo: "dv * 1024 * (n div 1024) \<le> b" using 1(4) by (simp add: mult.assoc)
    have "n + 1 \<le> 1024 * (n div 1024 + 1)" by simp
    then have "dv * (n + 1) \<le> dv * (1024 * (n div 1024 + 1))"
      using 1(3) by (intro mult_left_mono) auto
    then have hi: "b < dv * 1024 * (n div 1024 + 1)" using 1(5) by (simp add: mult.assoc)
    have p: "0 < dv * 1024" using 1(3) by simp
    from 1(1)[OF True, unfolded w, OF n1 p lo hi 1(6)]
    obtain j where j:
      "FormatSize_loop (n div 1024) (dv * 1024) (ex + 1) = (dv * 1024 * 1024 ^ j, ex + 1 + int j)"
      "dv * 1024 * 1024 ^ j \<le> b" "b < dv * 1024 * 1024 ^ j * 1024" by auto
    show ?thesis
      apply (rule exI[of _ "Suc j"])
      using j True w by (subst FormatSize_loop.simps) (simp add: mult.assoc)
  next
    case False
    have "dv * 1 \<le> dv * n" using 1(2,3) by (intro mult_left_mono) auto
    then have lo: "dv \<le> b" using 1(4) by simp
    have "dv * (n + 1) \<le> dv * 1024" using False 1(3) by (intro mult_left_mono) auto
    then have hi: "b < dv * 1024" using 1(5) by simp
    show ?thesis
      apply (rule exI[of _ 0])
      using False lo hi by (subst FormatSize_loop.simps) simp
  qed
qed

lemma pow1024_bound:
  assumes "(1024::int) ^ k \<le> b" "b < 2 ^ 63"
  shows "k \<le> 6"
proof (rule ccontr)
  assume "\<not> k \<le> 6"
  then have "7 \<le> k" by simp
  then have "(1024::int) ^ 7 \<le> 1024 ^ k" by (intro power_increasing) auto
  then show False using assms by simp
qed

lemma FormatSize_small:
  "sint bytes < 1024 \<Longrightarrow> FormatSize bytes = Inr (itoa (sint bytes) @ '' B'')"
  by (simp add: FormatSize_def)

lemma FormatSize_large:
  assumes "1024 \<le> sint bytes"
  shows "\<exists>k. 1 \<le> k \<and> k \<le> 6 \<and> 1024 ^ k \<le> sint bytes \<and> sint bytes < 1024 ^ (k + 1) \<and>
     FormatSize bytes =
       Inr (fmt_f 1 (float_div (float64_of_int (sint bytes)) (float64_of_int (1024 ^ k)))
            @ '' '' @ [''KMGTPE'' ! (k - 1)] @ ''B'')"
proof -
  let ?b = "sint bytes"
  have lt: "?b < 2 ^ 63" using sint_lt[of bytes] by simp
  have n1: "1 \<le> ?b div 1024" using assms by simp
  have lo: "1024 * (?b div 1024) \<le> ?b" by simp
  have hi: "?b < 1024 * (?b div 1024 + 1)" by simp
  from FormatSize_loop_inv[OF n1 _ lo hi lt, of 0]
  obtain j where j: "FormatSize_loop (?b div 1024) 1024 0 = (1024 * 1024 ^ j, int j)"
    "1024 * 1024 ^ j \<le> ?b" "?b < 1024 * 1024 ^ j * 1024" by auto
  have k6: "Suc j \<le> 6" using pow1024_bound[of "Suc j" ?b] j(2) lt by simp
  then have "j \<le> 5" by simp
  then have idx: "index ''KMGTPE'' (int j) = Inr (''KMGTPE'' ! j)"
    by (simp add: index_def)
  have fs: "FormatSize bytes =
       Inr (fmt_f 1 (float_div (float64_of_int ?b) (float64_of_int (1024 ^ Suc j)))
            @ '' '' @ [''KMGTPE'' ! j] @ ''B'')"
    unfolding FormatSize_def Let_def using assms j(1) idx by simp
  show ?thesis
    apply (rule exI[of _ "Suc j"])
    using j(2,3) k6 fs by (simp add: mult.commute)
qed

lemmas float_eval = float64_of_int_def round_float64_def bitlen.simps rhe_div_def Let_def
  fmt_f_def digits.simps digit_char_def

lemma FormatSize_examples:
  "FormatSize 0 = Inr ''0 B''" "FormatSize 1023 = Inr ''1023 B''"
  "FormatSize 1024 = Inr ''1.0 KB''" "FormatSize 1536 = Inr ''1.5 KB''"
  "FormatSize 1048576 = Inr ''1.0 MB''"
proof -
  show "FormatSize 0 = Inr ''0 B''" "FormatSize 1023 = Inr ''1023 B''"
    by (simp_all add: FormatSize_def itoa_def digits.simps digit_char_def)
  have l1: "FormatSize_loop 1 1024 0 = (1024, 0)"
    and l2: "FormatSize_loop 1024 1024 0 = (1048576, 1)"
    by (simp_all add: FormatSize_loop.simps wrap64_def)
  have f1: "fmt_f 1 (float_div (float64_of_int 1024) (float64_of_int 1024)) = ''1.0''"
    and f2: "fmt_f 1 (float_div (float64_of_int 1536) (float64_of_int 1024)) = ''1.5''"
    and f3: "fmt_f 1 (float_div (float64_of_int 1048576) (float64_of_int 1048576)) = ''1.0''"
    by (simp_all add: float_eval)
  show "FormatSize 1024 = Inr ''1.0 KB''" "FormatSize 1536 = Inr ''1.5 KB''"
    "FormatSize 1048576 = Inr ''1.0 MB''"
    unfolding FormatSize_def Let_def by (simp_all add: l1 l2 f1 f2 f3 index_def del: One_nat_def)
qed

text \<open>
  Claim C5. For every int64 value: below 1024 the result is the decimal number followed
  by \<open>B\<close> with a space between; from 1024 on, the divisor is the power \<open>1024^k\<close> with
  \<open>1024^k \<le> bytes < 1024^(k+1)\<close>, where \<open>1 \<le> k \<le> 6\<close>, the quotient of the two float64
  values is printed with one decimal, and the unit letter is the \<open>k\<close>-th of \<open>KMGTPE\<close>;
  no case panics. The five values named by the specification are as it says.
\<close>

theorem FormatSize_spec:
  "(sint bytes < 1024 \<longrightarrow> FormatSize bytes = Inr (itoa (sint bytes) @ '' B''))
   \<and> (1024 \<le> sint bytes \<longrightarrow>
        (\<exists>k. 1 \<le> k \<and> k \<le> 6 \<and> 1024 ^ k \<le> sint bytes \<and> sint bytes < 1024 ^ (k + 1) \<and>
          FormatSize bytes =
            Inr (fmt_f 1 (float_div (float64_of_int (sint bytes)) (float64_of_int (1024 ^ k)))
                 @ '' '' @ [''KMGTPE'' ! (k - 1)] @ ''B'')))
   \<and> FormatSize 0 = Inr ''0 B'' \<and> FormatSize 1023 = Inr ''1023 B''
   \<and> FormatSize 1024 = Inr ''1.0 KB'' \<and> FormatSize 1536 = Inr ''1.5 KB''
   \<and> FormatSize 1048576 = Inr ''1.0 MB''"
  using FormatSize_small [of bytes] FormatSize_large [of bytes] FormatSize_examples
  by blast

theorem FormatSize_spec_witness:
  "sint (1023 :: 64 word) < 1024 \<and> FormatSize 1023 = Inr (itoa (sint (1023 :: 64 word)) @ '' B'')
   \<and> 1024 \<le> sint (1536 :: 64 word)
   \<and> (\<exists>k. 1 \<le> k \<and> k \<le> 6 \<and> 1024 ^ k \<le> sint (1536 :: 64 word)
          \<and> sint (1536 :: 64 word) < 1024 ^ (k + 1) \<and>
          FormatSize 1536 =
            Inr (fmt_f 1 (float_div (float64_of_int (sint (1536 :: 64 word)))
                            (float64_of_int (1024 ^ k)))
                 @ '' '' @ [''KMGTPE'' ! (k - 1)] @ ''B''))"
proof -
  have small: "sint (1023 :: 64 word) < 1024" and large: "1024 \<le> sint (1536 :: 64 word)"
    by simp_all
  show ?thesis
    using small large FormatSize_spec [of 1023] FormatSize_spec [of 1536] by blast
qed

section \<open>Properties of the client\<close>

subsection \<open>Evaluation rules for the concrete cases\<close>

lemmas scan_eval = readValue_def scanner_reset_def scan_step_def stateBeginValue_def
  stateBeginValueOrEmpty_def stateBeginString_def stateBeginStringOrEmpty_def stateEndValue_def
  stateEndTop_def stateInString_def stateInStringEsc_def state_hex_def state0_def state1_def
  stateNeg_def stateDot_def stateDot0_def stateE_def stateESign_def stateE0_def state_lit_def
  scan_error_def goto_def pushParseState_def popParseState_def maxNestingDepth_def isSpace_def
  is_digit_def is_hex_def in_range_def byte_def nonSpace_def Let_def

lemmas unmarshal_eval = unmarshal_ErrorResponse_def parse_json_def isSpace_def lit_char_def
  literal_def field_matches_def first_error_def fold_rune_def in_range_def byte_def

lemmas header_eval = Header_Get_def Header_Set_def CanonicalMIMEHeaderKey_def
  validHeaderFieldByte_def is_alnum_def in_range_def byte_def ascii_upper_def ascii_lower_def
  Let_def

lemma api_key_header: "Header_Get (Header_Set [] ''X-API-Key'' k) ''X-API-Key'' = k"
  by (simp add: header_eval)

subsection \<open>The requests\<close>

lemma get_requests:
  assumes "r \<in> set (fst (get e c path result))"
  shows "r = \<lparr>Method = ''GET'', URL = baseURL c @ ''/api/'' @ APIVersion @ path,
              ReqHeader = Header_Set [] ''X-API-Key'' (apiKey c)\<rparr>"
  using assms
  by (auto simp add: get_def NewRequest_def Let_def
      split: sum.splits option.splits prod.splits if_splits)

lemma get_issues_one:
  assumes "ParseURL e (baseURL c @ ''/api/'' @ APIVersion @ path) = None"
  shows "fst (get e c path result) =
           [\<lparr>Method = ''GET'', URL = baseURL c @ ''/api/'' @ APIVersion @ path,
             ReqHeader = Header_Set [] ''X-API-Key'' (apiKey c)\<rparr>]"
  using assms
  by (auto simp add: get_def NewRequest_def Let_def split: sum.splits prod.splits)

lemma DownloadDocument_requests:
  assumes "r \<in> set (fst (DownloadDocument e c ident))"
  shows "r = \<lparr>Method = ''GET'',
              URL = baseURL c @ ''/api/'' @ APIVersion @ ''/documents/'' @ ident @ ''/download'',
              ReqHeader = Header_Set [] ''X-API-Key'' (apiKey c)\<rparr>"
  using assms
  by (auto simp add: DownloadDocument_def NewRequest_def Let_def
      split: sum.splits option.splits prod.splits if_splits)

lemma paths_start_with_slash:
  "Search_path query limit = ''/'' @ tl (Search_path query limit)"
  "ListDevices_path limit offset domain deviceType
     = ''/'' @ tl (ListDevices_path limit offset domain deviceType)"
  "ListDocuments_path limit offset deviceID = ''/'' @ tl (ListDocuments_path limit offset deviceID)"
  by (simp_all add: Search_path_def ListDevices_path_def ListDocuments_path_def Let_def)

lemma get_meets_form:
  assumes "r \<in> set (fst (get e c (''/'' @ resource) result))"
  shows "Method r = ''GET'' \<and> Header_Get (ReqHeader r) ''X-API-Key'' = apiKey c
         \<and> URL r = baseURL c @ ''/api/'' @ APIVersion @ ''/'' @ resource"
  using get_requests [OF assms] by (simp add: api_key_header)

text \<open>
  Claim C6. Whatever the base URL, the key and the arguments, every request an operation
  hands to the network is a GET, carries the key of the client under the header name
  \<open>X-API-Key\<close>, and has the URL \<open><base_url>/api/2025.12/<resource>\<close>; the version is the
  constant \<open>APIVersion\<close>.
\<close>

theorem every_request_has_the_form:
  assumes "r \<in> set (fst (Search e r1 c query limit))
             \<union> set (fst (ListDevices e r2 c limit offset domain deviceType))
             \<union> set (fst (GetDevice e r3 c ident))
             \<union> set (fst (ListDocuments e r4 c limit offset deviceID))
             \<union> set (fst (GetDocument e r5 c ident))
             \<union> set (fst (DownloadDocument e c ident))"
  shows "Method r = ''GET'' \<and> Header_Get (ReqHeader r) ''X-API-Key'' = apiKey c
         \<and> (\<exists>resource. URL r = baseURL c @ ''/api/'' @ APIVersion @ ''/'' @ resource)
         \<and> APIVersion = ''2025.12''"
proof -
  have v: "APIVersion = ''2025.12''" by (simp add: APIVersion_def)
  consider
      (search) "r \<in> set (fst (Search e r1 c query limit))"
    | (devices) "r \<in> set (fst (ListDevices e r2 c limit offset domain deviceType))"
    | (device) "r \<in> set (fst (GetDevice e r3 c ident))"
    | (documents) "r \<in> set (fst (ListDocuments e r4 c limit offset deviceID))"
    | (document) "r \<in> set (fst (GetDocument e r5 c ident))"
    | (download) "r \<in> set (fst (DownloadDocument e c ident))"
    using assms by blast
  then have "Method r = ''GET'' \<and> Header_Get (ReqHeader r) ''X-API-Key'' = apiKey c
         \<and> (\<exists>resource. URL r = baseURL c @ ''/api/'' @ APIVersion @ ''/'' @ resource)"
  proof cases
    case search
    then have "r \<in> set (fst (get e c (''/'' @ tl (Search_path query limit)) r1))"
      using paths_start_with_slash(1) [of query limit] by (simp add: Search_def)
    from get_meets_form [OF this] show ?thesis by blast
  next
    case devices
    then have "r \<in> set (fst (get e c
        (''/'' @ tl (ListDevices_path limit offset domain deviceType)) r2))"
      using paths_start_with_slash(2) [of limit offset domain deviceType]
      by (simp add: ListDevices_def)
    from get_meets_form [OF this] show ?thesis by blast
  next
    case device
    then have "r \<in> set (fst (get e c (''/'' @ ''devices/'' @ ident) r3))"
      by (simp add: GetDevice_def)
    from get_meets_form [OF this] show ?thesis by blast
  next
    case documents
    then have "r \<in> set (fst (get e c
        (''/'' @ tl (ListDocuments_path limit offset deviceID)) r4))"
      using paths_start_with_slash(3) [of limit offset deviceID]
      by (simp add: ListDocuments_def)
    from get_meets_form [OF this] show ?thesis by blast
  next
    case document
    then have "r \<in> set (fst (get e c (''/'' @ ''documents/'' @ ident) r5))"
      by (simp add: GetDocument_def)
    from get_meets_form [OF this] show ?thesis by blast
  next
    case download
    from DownloadDocument_requests [OF this]
    have "Method r = ''GET''" "Header_Get (ReqHeader r) ''X-API-Key'' = apiKey c"
      "URL r = baseURL c @ ''/api/'' @ APIVersion @ ''/'' @ (''documents/'' @ ident @ ''/download'')"
      by (simp_all add: api_key_header)
    then show ?thesis by blast
  qed
  with v show ?thesis by blast
qed

theorem every_request_has_the_form_witness:
  "\<lparr>Method = ''GET'', URL = ''http://localhost:8080/api/2025.12/documents/42/download'',
     ReqHeader = [(''X-Api-Key'', [''secret''])]\<rparr>
     \<in> set (fst (DownloadDocument unreachable local_client ''42''))
   \<and> Header_Get [(''X-Api-Key'', [''secret''])] ''X-API-Key'' = apiKey local_client
   \<and> (\<exists>resource. ''http://localhost:8080/api/2025.12/documents/42/download''
         = baseURL local_client @ ''/api/'' @ APIVersion @ ''/'' @ resource)"
proof -
  let ?r = "\<lparr>Method = ''GET'', URL = ''http://localhost:8080/api/2025.12/documents/42/download'',
     ReqHeader = [(''X-Api-Key'', [''secret''])]\<rparr>"
  have mem: "?r \<in> set (fst (DownloadDocument unreachable local_client ''42''))"
    by (simp add: DownloadDocument_def unreachable_def local_client_def New_Client_def
        NewRequest_def APIVersion_def header_eval)
  then have "?r \<in> set (fst (Search unreachable unmarshal_ErrorResponse local_client [] 0))
             \<union> set (fst (ListDevices unreachable unmarshal_ErrorResponse local_client 0 0 [] []))
             \<union> set (fst (GetDevice unreachable unmarshal_ErrorResponse local_client ''42''))
             \<union> set (fst (ListDocuments unreachable unmarshal_ErrorResponse local_client 0 0 []))
             \<union> set (fst (GetDocument unreachable unmarshal_ErrorResponse local_client ''42''))
             \<union> set (fst (DownloadDocument unreachable local_client ''42''))"
    by blast
  from every_request_has_the_form [OF this] mem show ?thesis by simp
qed

subsection \<open>The query string of ListDevices\<close>

lemma digit_char_plain: "d < 10 \<Longrightarrow> escape_byte (digit_char d) = [digit_char d]"
proof -
  assume "d < 10"
  then have "d \<in> {0, 1, 2, 3, 4, 5, 6, 7, 8, 9}" by auto
  then show ?thesis
    by (auto simp add: escape_byte_def shouldEscape_def is_alnum_def in_range_def byte_def
        digit_char_def)
qed

lemma QueryEscape_digits: "QueryEscape (digits n) = digits n"
proof (induction n rule: digits.induct)
  case (1 n)
  show ?case
  proof (cases "n < 10")
    case True
    then show ?thesis
      by (subst (1 2) digits.simps) (simp add: QueryEscape_def digit_char_plain)
  next
    case False
    then have "QueryEscape (digits (n div 10)) = digits (n div 10)" using 1 by simp
    moreover have "escape_byte (digit_char (n mod 10)) = [digit_char (n mod 10)]"
      by (rule digit_char_plain) simp
    ultimately show ?thesis using False
      by (subst (1 2) digits.simps) (simp add: QueryEscape_def)
  qed
qed

lemma QueryEscape_itoa: "QueryEscape (itoa n) = itoa n"
  using QueryEscape_digits
  by (simp add: itoa_def QueryEscape_def escape_byte_def shouldEscape_def)

lemma QueryEscape_keys:
  "QueryEscape ''limit'' = ''limit''" "QueryEscape ''offset'' = ''offset''"
  "QueryEscape ''domain'' = ''domain''" "QueryEscape ''type'' = ''type''"
  "QueryEscape ''q'' = ''q''" "QueryEscape ''device_id'' = ''device_id''"
  by (simp_all add: QueryEscape_def escape_byte_def shouldEscape_def is_alnum_def in_range_def
      byte_def)

lemmas query_eval = set_positive_def set_nonempty_def Values_Encode_def sort_keys_def
  encode_pair_def QueryEscape_itoa QueryEscape_keys byte_def Let_def

lemmas escape_eval = QueryEscape_def escape_byte_def shouldEscape_def is_alnum_def in_range_def
  byte_def itoa_def digits.simps digit_char_def

lemma ListDevices_path_eq:
  "ListDevices_path limit offset domain deviceType =
     ''/devices'' @
     (let ps = (if domain \<noteq> [] then [''domain='' @ QueryEscape domain] else [])
             @ (if 0 < limit then [''limit='' @ itoa limit] else [])
             @ (if 0 < offset then [''offset='' @ itoa offset] else [])
             @ (if deviceType \<noteq> [] then [''type='' @ QueryEscape deviceType] else [])
      in if ps = [] then [] else ''?'' @ Join ps ''&'')"
  by (simp add: ListDevices_path_def query_eval)

text \<open>
  Claim C3, as the code has it. \<open>ListDevices(0, 0, "", "")\<close> asks for \<open>/devices\<close> with no
  query string. In general the query string holds the filters that are present, each as
  \<open>key=value\<close> with the value escaped, joined by \<open>&\<close> in the order of the sorted keys
  \<open>domain\<close>, \<open>limit\<close>, \<open>offset\<close>, \<open>type\<close>; \<open>limit\<close> and \<open>offset\<close> are present exactly when
  positive, \<open>domain\<close> and \<open>type\<close> exactly when not empty. So
  \<open>ListDevices(10, 20, "hardware", "")\<close> asks for
  \<open>/devices?domain=hardware&limit=10&offset=20\<close>. Every request of the call is a GET for
  the base URL, \<open>/api/2025.12\<close> and this path.
\<close>

theorem ListDevices_query:
  "ListDevices_path 0 0 [] [] = ''/devices''
   \<and> ListDevices_path 10 20 ''hardware'' [] = ''/devices?domain=hardware&limit=10&offset=20''
   \<and> ListDevices_path limit offset domain deviceType =
       ''/devices'' @
       (let ps = (if domain \<noteq> [] then [''domain='' @ QueryEscape domain] else [])
               @ (if 0 < limit then [''limit='' @ itoa limit] else [])
               @ (if 0 < offset then [''offset='' @ itoa offset] else [])
               @ (if deviceType \<noteq> [] then [''type='' @ QueryEscape deviceType] else [])
        in if ps = [] then [] else ''?'' @ Join ps ''&'')
   \<and> (\<forall>r \<in> set (fst (ListDevices e result c limit offset domain deviceType)).
         Method r = ''GET''
         \<and> URL r = baseURL c @ ''/api/2025.12''
                    @ ListDevices_path limit offset domain deviceType)"
proof -
  have a: "ListDevices_path 0 0 [] [] = ''/devices''"
    by (simp add: ListDevices_path_eq)
  have b: "ListDevices_path 10 20 ''hardware'' [] = ''/devices?domain=hardware&limit=10&offset=20''"
    by (simp add: ListDevices_path_eq escape_eval)
  have d: "\<forall>r \<in> set (fst (ListDevices e result c limit offset domain deviceType)).
         Method r = ''GET''
         \<and> URL r = baseURL c @ ''/api/2025.12''
                    @ ListDevices_path limit offset domain deviceType"
  proof
    fix r
    assume "r \<in> set (fst (ListDevices e result c limit offset domain deviceType))"
    then have "r \<in> set (fst (get e c (ListDevices_path limit offset domain deviceType) result))"
      by (simp add: ListDevices_def)
    from get_requests [OF this]
    show "Method r = ''GET''
         \<and> URL r = baseURL c @ ''/api/2025.12''
                    @ ListDevices_path limit offset domain deviceType"
      by (simp add: APIVersion_def)
  qed
  from a b d ListDevices_path_eq [of limit offset domain deviceType] show ?thesis by blast
qed

theorem ListDevices_query_witness:
  "\<lparr>Method = ''GET'',
     URL = ''http://localhost:8080/api/2025.12/devices?domain=hard+ware&offset=20&type=dev-boards'',
     ReqHeader = [(''X-Api-Key'', [''secret''])]\<rparr>
     \<in> set (fst (ListDevices unreachable raw_result local_client (- 1) 20 ''hard ware'' ''dev-boards''))
   \<and> ListDevices_path (- 1) 20 ''hard ware'' ''dev-boards''
       = ''/devices?domain=hard+ware&offset=20&type=dev-boards''"
proof -
  let ?r = "\<lparr>Method = ''GET'',
     URL = ''http://localhost:8080/api/2025.12/devices?domain=hard+ware&offset=20&type=dev-boards'',
     ReqHeader = [(''X-Api-Key'', [''secret''])]\<rparr>"
  have p: "ListDevices_path (- 1) 20 ''hard ware'' ''dev-boards''
       = ''/devices?domain=hard+ware&offset=20&type=dev-boards''"
    using ListDevices_query [where limit = "- 1" and offset = 20 and domain = "''hard ware''"
        and deviceType = "''dev-boards''" and e = unreachable and result = raw_result
        and c = local_client]
    by (simp add: escape_eval)
  have "fst (ListDevices unreachable raw_result local_client (- 1) 20 ''hard ware'' ''dev-boards'')
          = [?r]"
    unfolding ListDevices_def
    by (subst get_issues_one)
      (simp_all add: p unreachable_def local_client_def New_Client_def APIVersion_def header_eval)
  then show ?thesis using p by simp
qed

text \<open>
  The claim as the specification words it fails: the keys come out sorted, so the query
  string of \<open>ListDevices(10, 20, "hardware", "")\<close> is not \<open>limit=10&offset=20&domain=hardware\<close>;
  and a negative limit is left out although it is not zero.
\<close>

theorem ListDevices_query_counterexample:
  "fst (ListDevices unreachable raw_result local_client 10 20 ''hardware'' [])
     = [\<lparr>Method = ''GET'',
          URL = ''http://localhost:8080/api/2025.12/devices?domain=hardware&limit=10&offset=20'',
          ReqHeader = [(''X-Api-Key'', [''secret''])]\<rparr>]
   \<and> ''domain=hardware&limit=10&offset=20'' \<noteq> ''limit=10&offset=20&domain=hardware''
   \<and> ListDevices_path (- 5) 0 [] [] = ''/devices'' \<and> (- 5 :: int) \<noteq> 0"
proof -
  have p: "ListDevices_path 10 20 ''hardware'' [] = ''/devices?domain=hardware&limit=10&offset=20''"
    by (simp add: ListDevices_path_eq escape_eval)
  have "fst (ListDevices unreachable raw_result local_client 10 20 ''hardware'' [])
     = [\<lparr>Method = ''GET'',
          URL = ''http://localhost:8080/api/2025.12/devices?domain=hardware&limit=10&offset=20'',
          ReqHeader = [(''X-Api-Key'', [''secret''])]\<rparr>]"
    unfolding ListDevices_def
    by (subst get_issues_one)
      (simp_all add: p unreachable_def local_client_def New_Client_def APIVersion_def header_eval)
  moreover have "ListDevices_path (- 5) 0 [] [] = ''/devices''"
    by (simp add: ListDevices_path_eq)
  ultimately show ?thesis by simp
qed

subsection \<open>The filename of a download\<close>

lemma filename_short: "length cd \<le> 21 \<Longrightarrow> DownloadDocument_filename cd = Inr []"
  by (simp add: DownloadDocument_filename_def)

lemma filename_22: "length cd = 22 \<Longrightarrow> DownloadDocument_filename cd = Inl SliceBoundsOutOfRange"
  by (auto simp add: DownloadDocument_filename_def slice_def)

lemma filename_long:
  "23 \<le> length cd \<Longrightarrow> DownloadDocument_filename cd = Inr (butlast (drop 22 cd))"
  by (auto simp add: DownloadDocument_filename_def slice_def Let_def nat_diff_distrib
      butlast_conv_take)

lemma DownloadDocument_200:
  assumes "ParseURL e (baseURL c @ ''/api/'' @ APIVersion @ ''/documents/'' @ ident @ ''/download'')
             = None"
    and "RoundTrip e \<lparr>Method = ''GET'',
            URL = baseURL c @ ''/api/'' @ APIVersion @ ''/documents/'' @ ident @ ''/download'',
            ReqHeader = Header_Set [] ''X-API-Key'' (apiKey c)\<rparr> = Inr resp"
    and "StatusCode resp = 200"
  shows "snd (DownloadDocument e c ident) =
           (case DownloadDocument_filename (Header_Get (RespHeader resp) ''Content-Disposition'') of
              Inl p \<Rightarrow> Inl p
            | Inr filename \<Rightarrow> Inr (Inr (Body resp, filename)))"
  using assms by (simp add: DownloadDocument_def NewRequest_def Let_def split: sum.splits)

lemma server_download:
  "snd (DownloadDocument (server 200 [(''Content-Disposition'', [cd])] body) local_client ident) =
           (case DownloadDocument_filename cd of
              Inl p \<Rightarrow> Inl p
            | Inr filename \<Rightarrow> Inr (Inr (\<lparr>blocks = body, final = None\<rparr>, filename)))"
  by (subst DownloadDocument_200 [where resp = "\<lparr>StatusCode = 200,
        RespHeader = [(''Content-Disposition'', [cd])], Body = \<lparr>blocks = body, final = None\<rparr>\<rparr>"])
    (simp_all add: server_def header_eval split: sum.splits)

text \<open>
  Claim C10. On a response with status 200 only the length of the
  \<^verbatim>\<open>Content-Disposition\<close> value decides: up to 21 bytes, or no header, the filename is
  empty; at 22 bytes the call panics on the slice; from 23 bytes on the filename is the
  bytes from index 22 up to the last byte, which is left out, whatever the first 21 bytes
  are.
\<close>

theorem DownloadDocument_filename_by_length:
  assumes "ParseURL e (baseURL c @ ''/api/'' @ APIVersion @ ''/documents/'' @ ident @ ''/download'')
             = None"
    and "RoundTrip e \<lparr>Method = ''GET'',
            URL = baseURL c @ ''/api/'' @ APIVersion @ ''/documents/'' @ ident @ ''/download'',
            ReqHeader = Header_Set [] ''X-API-Key'' (apiKey c)\<rparr> = Inr resp"
    and "StatusCode resp = 200"
    and "cd = Header_Get (RespHeader resp) ''Content-Disposition''"
  shows "(length cd \<le> 21 \<longrightarrow> snd (DownloadDocument e c ident) = Inr (Inr (Body resp, [])))
       \<and> (length cd = 22 \<longrightarrow> snd (DownloadDocument e c ident) = Inl SliceBoundsOutOfRange)
       \<and> (23 \<le> length cd \<longrightarrow>
            snd (DownloadDocument e c ident) = Inr (Inr (Body resp, butlast (drop 22 cd))))
       \<and> (map_of (RespHeader resp) ''Content-Disposition'' = None \<longrightarrow> cd = [])"
proof -
  have absent: "map_of (RespHeader resp) ''Content-Disposition'' = None \<longrightarrow> cd = []"
    using assms(4) by (simp add: header_eval)
  show ?thesis
    using DownloadDocument_200 [OF assms(1-3)] assms(4) absent
      filename_short [of cd] filename_22 [of cd] filename_long [of cd]
    by auto
qed

theorem DownloadDocument_filename_by_length_witness:
  "snd (DownloadDocument (server 200 [(''Content-Disposition'', [''attachment; filename=''])] [])
          local_client ''42'') = Inr (Inr (\<lparr>blocks = [], final = None\<rparr>, []))
   \<and> snd (DownloadDocument (server 200 [(''Content-Disposition'', [''attachment; filename=x''])] [])
          local_client ''42'') = Inl SliceBoundsOutOfRange
   \<and> snd (DownloadDocument (server 200 [(''Content-Disposition'', [''xxxxxxxxxxxxxxxxxxxxxxabcd''])] [])
          local_client ''42'') = Inr (Inr (\<lparr>blocks = [], final = None\<rparr>, ''abc''))
   \<and> snd (DownloadDocument (server 200 [] []) local_client ''42'')
        = Inr (Inr (\<lparr>blocks = [], final = None\<rparr>, []))"
proof -
  have t: "(length cd \<le> 21 \<longrightarrow>
            snd (DownloadDocument (server 200 h []) local_client ''42'')
              = Inr (Inr (\<lparr>blocks = [], final = None\<rparr>, [])))
       \<and> (length cd = 22 \<longrightarrow>
            snd (DownloadDocument (server 200 h []) local_client ''42'') = Inl SliceBoundsOutOfRange)
       \<and> (23 \<le> length cd \<longrightarrow>
            snd (DownloadDocument (server 200 h []) local_client ''42'')
              = Inr (Inr (\<lparr>blocks = [], final = None\<rparr>, butlast (drop 22 cd))))"
    if "cd = Header_Get h ''Content-Disposition''" for h cd
    using that DownloadDocument_filename_by_length [where e = "server 200 h []"
        and c = local_client and ident = "''42''" and cd = cd
        and resp = "\<lparr>StatusCode = 200, RespHeader = h, Body = \<lparr>blocks = [], final = None\<rparr>\<rparr>"]
    by (simp add: server_def)
  have g: "v = Header_Get [(''Content-Disposition'', [v])] ''Content-Disposition''"
    "[] = Header_Get [] ''Content-Disposition''" for v
    by (simp_all add: header_eval)
  show ?thesis
    using t [OF g(1) [of "''attachment; filename=''"]]
      t [OF g(1) [of "''attachment; filename=x''"]]
      t [OF g(1) [of "''xxxxxxxxxxxxxxxxxxxxxxabcd''"]]
      t [OF g(2)]
    by simp
qed

text \<open>
  Claim C2 at inputs where the code departs from it. The header
  \<open>inline; filename="report.pdf"\<close> is not of the form \<open>attachment; filename="..."\<close>, and the
  filename returned is \<open>rt.pdf\<close>, not the empty string; the header
  \<open>attachment; filename=x\<close>, which lacks the quotes, makes the call panic.
\<close>

theorem DownloadDocument_malformed_header:
  \<open>snd (DownloadDocument (server 200 [(''Content-Disposition'', [''inline; filename="report.pdf"''])]
          [''%PDF'']) local_client ''42'')
     = Inr (Inr (\<lparr>blocks = [''%PDF''], final = None\<rparr>, ''rt.pdf''))
   \<and> snd (DownloadDocument (server 200 [(''Content-Disposition'', [''attachment; filename=x''])]
          [''%PDF'']) local_client ''42'')
     = Inl SliceBoundsOutOfRange\<close>
  by (simp add: server_download filename_22 filename_long)

subsection \<open>Errors of the server\<close>

lemma get_not_200:
  assumes "ParseURL e (baseURL c @ ''/api/'' @ APIVersion @ path) = None"
    and "RoundTrip e \<lparr>Method = ''GET'', URL = baseURL c @ ''/api/'' @ APIVersion @ path,
            ReqHeader = Header_Set [] ''X-API-Key'' (apiKey c)\<rparr> = Inr resp"
    and "StatusCode resp \<noteq> 200"
  shows "snd (get e c path result) =
           Inl (APIError (StatusCode resp)
                  (case Decode unmarshal_ErrorResponse (Body resp) of
                     (Inl er, rest) \<Rightarrow> ReadAll rest
                   | (Inr errResp, rest) \<Rightarrow> Error errResp))"
  using assms
  by (simp add: get_def NewRequest_def Let_def split: sum.splits prod.splits)

text \<open>Whatever the decoder has read is gone: at least the first block of the body.\<close>

lemma readValue_loop_consumes:
  "\<exists>k. blocks (snd (readValue_loop s buf bs fin)) = drop k bs"
proof (induction bs arbitrary: s buf)
  case Nil
  show ?case by (simp split: option.splits)
next
  case (Cons b bs)
  show ?case
  proof (cases "scan_bytes s (length buf) b")
    case (ValueEnd n)
    then show ?thesis by (auto intro: exI [of _ 1])
  next
    case (ScanFailed er)
    then show ?thesis by (auto intro: exI [of _ 1])
  next
    case (NeedMore s')
    from Cons [of s' "buf @ b"] obtain k
      where "blocks (snd (readValue_loop s' (buf @ b) bs fin)) = drop k bs" by blast
    then show ?thesis using NeedMore by (auto intro: exI [of _ "Suc k"])
  qed
qed

lemma failed_decode_message_is_shorter:
  assumes "blocks body = b # bs" and "b \<noteq> []"
    and "Decode unmarshal_ErrorResponse body = (Inl er, rest)"
  shows "length (ReadAll rest) < length (ReadAll body)"
proof -
  have rest: "rest = snd (readValue body)"
    using assms(3) by (auto simp add: Decode_def split: prod.splits sum.splits)
  have "\<exists>k. blocks (snd (readValue body)) = drop k bs"
  proof (cases "scan_bytes scanner_reset 0 b")
    case (NeedMore s')
    from readValue_loop_consumes [of s' b bs "final body"] show ?thesis
      using NeedMore assms(1) by (simp add: readValue_def)
  qed (auto simp add: readValue_def assms(1) intro: exI [of _ 0])
  then obtain k where "blocks rest = drop k bs" using rest by blast
  then have "length (ReadAll rest) \<le> length (concat bs)"
    by (simp add: ReadAll_def length_concat)
      (metis append_take_drop_id le_add2 map_append sum_list.append)
  then show ?thesis using assms(1,2) by (cases b) (simp_all add: ReadAll_def)
qed

text \<open>
  Claim C1 at the input the specification names. The body \<open>{"error":"not found"}\<close> gives
  the message \<open>not found\<close>, as claimed. The body \<open>oops\<close> gives the empty message, not
  \<open>oops\<close>: the decoder has taken the bytes from the body before \<^verbatim>\<open>io.ReadAll\<close> reads what
  is left.
\<close>

theorem get_loses_raw_body:
  \<open>snd (get (server 404 [] [''oops'']) local_client ''/devices/42'' raw_result)
     = Inl (APIError 404 [])
   \<and> snd (get (server 404 [] [''{"error":"not found"}'']) local_client ''/devices/42'' raw_result)
     = Inl (APIError 404 ''not found'')\<close>
proof -
  have rv1: "readValue \<lparr>blocks = [''oops''], final = None\<rparr>
      = (Inl (SyntaxError CHR ''o'' ''looking for beginning of value''),
         \<lparr>blocks = [], final = None\<rparr>)"
    by (simp add: scan_eval)
  have rv2: \<open>readValue \<lparr>blocks = [''{"error":"not found"}''], final = None\<rparr>
      = (Inr ''{"error":"not found"}'', \<lparr>blocks = [], final = None\<rparr>)\<close>
    by (simp add: scan_eval)
  have um: \<open>unmarshal_ErrorResponse ''{"error":"not found"}'' = Inr \<lparr>Error = ''not found''\<rparr>\<close>
    by (simp add: unmarshal_eval)
  show ?thesis
    by (simp add: get_def server_def NewRequest_def Decode_def ReadAll_def rv1 rv2 um)
qed

section \<open>Properties of the renderer\<close>

subsection \<open>The format of a new Writer\<close>

lemmas lower_eval = New_def ToLower_def ascii_lower_def byte_def FormatJSON_def FormatText_def
  FormatTable_def Let_def Format_def IsJSON_def

lemma New_table: "New lower ''table'' = \<lparr>format_of = ''table'', out = []\<rparr>"
  by (simp add: lower_eval)

lemma New_default:
  "ToLower lower s \<noteq> ''json'' \<Longrightarrow> ToLower lower s \<noteq> ''text'' \<Longrightarrow> New lower s = New lower ''table''"
  by (simp add: New_table) (simp add: New_def FormatJSON_def FormatText_def FormatTable_def)

lemma ToLower_ascii: "list_all (\<lambda>c. byte c < 128) s \<Longrightarrow> ToLower lower s = map ascii_lower s"
  by (simp add: ToLower_def)

text \<open>
  Claim C7, as the code has it. The format string is lower-cased first. Every string
  whose lower-case form is neither \<open>json\<close> nor \<open>text\<close> gives the Writer that \<open>table\<close>
  gives; so \<open>xml\<close> and \<open>table\<close> give Writers with the same format, \<open>table\<close>, which are
  not JSON. A string whose lower-case form is \<open>json\<close> or \<open>text\<close> gives that format.
\<close>

theorem New_unrecognized_is_table:
  "(ToLower lower s \<noteq> ''json'' \<and> ToLower lower s \<noteq> ''text'' \<longrightarrow> New lower s = New lower ''table'')
   \<and> (ToLower lower s = ''json'' \<or> ToLower lower s = ''text'' \<longrightarrow>
        Format (New lower s) = ToLower lower s)
   \<and> New lower ''xml'' = New lower ''table''
   \<and> Format (New lower ''xml'') = ''table'' \<and> Format (New lower ''table'') = ''table''
   \<and> \<not> IsJSON (New lower ''xml'') \<and> \<not> IsJSON (New lower ''table'')"
proof -
  have "New lower ''xml'' = New lower ''table''"
    by (rule New_default) (simp_all add: ToLower_def ascii_lower_def byte_def)
  moreover have "ToLower lower s = ''json'' \<or> ToLower lower s = ''text'' \<longrightarrow>
        Format (New lower s) = ToLower lower s"
    by (auto simp add: New_def Format_def FormatJSON_def FormatText_def)
  ultimately show ?thesis
    using New_default [of lower s] by (simp add: New_table Format_def IsJSON_def FormatJSON_def)
qed

theorem New_unrecognized_is_table_witness:
  "ToLower id ''YAML'' \<noteq> ''json'' \<and> ToLower id ''YAML'' \<noteq> ''text''
   \<and> New id ''YAML'' = New id ''table''
   \<and> ToLower id ''Text'' = ''text'' \<and> Format (New id ''Text'') = ''text''"
proof -
  have a: "ToLower id ''YAML'' = ''yaml''" "ToLower id ''Text'' = ''text''"
    by (simp_all add: ToLower_def ascii_lower_def byte_def)
  show ?thesis
    using New_unrecognized_is_table [of id "''YAML''"] New_unrecognized_is_table [of id "''Text''"]
    by (simp add: a)
qed

text \<open>
  The claim as the specification words it fails: \<open>JSON\<close> is none of \<open>table\<close>, \<open>json\<close>,
  \<open>text\<close>, and a Writer made with it is a JSON Writer, unlike the one made with \<open>table\<close>.
\<close>

theorem New_unrecognized_is_table_counterexample:
  "''JSON'' \<noteq> ''table'' \<and> ''JSON'' \<noteq> ''json'' \<and> ''JSON'' \<noteq> ''text''
   \<and> Format (New id ''JSON'') = ''json'' \<and> IsJSON (New id ''JSON'')
   \<and> Format (New id ''table'') = ''table'' \<and> \<not> IsJSON (New id ''table'')"
  by (simp add: lower_eval)

section \<open>Properties of the commands\<close>

subsection \<open>Identifiers and checksums that are too short\<close>

lemma slice_prefix:
  "slice s 0 n = (if 0 \<le> n \<and> n \<le> int (length s) then Inr (take (nat n) s)
                  else Inl SliceBoundsOutOfRange)"
  by (simp add: slice_def)

lemma Truncate_total: "0 \<le> maxLen \<Longrightarrow> \<exists>r. Truncate s maxLen = Inr r"
  by (auto simp add: Truncate_def slice_def)

lemma FormatSize_total: "\<exists>r. FormatSize b = Inr r"
  using FormatSize_small [of b] FormatSize_large [of b] by (cases "sint b < 1024") auto

lemma device_row_cases:
  "device_row d = (if length (dev_ID d) < 8 then Inl SliceBoundsOutOfRange
     else Inr [take 8 (dev_ID d), projr (Truncate (dev_Name d) 45), dev_Domain d, dev_Type d])"
  using Truncate_total [of 45 "dev_Name d"]
  by (auto simp add: device_row_def slice_prefix)

lemma search_row_cases:
  "search_row r = (if length (sr_DeviceID r) < 8 then Inl SliceBoundsOutOfRange
     else Inr [take 8 (sr_DeviceID r), projr (Truncate (sr_Name r) 40), sr_Domain r, sr_Type r,
               fmt_f 2 (sr_Score r)])"
  using Truncate_total [of 40 "sr_Name r"]
  by (auto simp add: search_row_def slice_prefix)

lemma document_row_cases:
  "document_row d = (if length (doc_ID d) < 8 then Inl SliceBoundsOutOfRange
     else Inr [take 8 (doc_ID d), projr (Truncate (doc_Filename d) 45), doc_MimeType d,
               projr (FormatSize (doc_SizeBytes d))])"
  using Truncate_total [of 45 "doc_Filename d"] FormatSize_total [of "doc_SizeBytes d"]
  by (auto simp add: document_row_def slice_prefix)

lemma search_snippets_ok:
  "\<forall>r \<in> set rs. 8 \<le> length (sr_DeviceID r) \<Longrightarrow> \<exists>w'. search_snippets i rs w = Inr w'"
proof (induction rs arbitrary: i w)
  case Nil
  show ?case by simp
next
  case (Cons r rs)
  obtain t where t: "Truncate (sr_Snippet r) 200 = Inr t"
    using Truncate_total [of 200 "sr_Snippet r"] by auto
  show ?case using Cons t by (auto simp add: slice_prefix)
qed

text \<open>The loop over the rows panics exactly when one element makes its row panic.\<close>

lemma rows_of:
  assumes "\<And>x. f x = (if short x then Inl SliceBoundsOutOfRange else Inr (g x))"
  shows "build_rows f xs
           = (if \<exists>x \<in> set xs. short x then Inl SliceBoundsOutOfRange else Inr (map g xs))"
  by (induction xs) (auto simp add: assms)

lemma devicesList_cases:
  assumes "\<not> IsJSON w"
  shows "if \<exists>d \<in> set (dev_Data result). length (dev_ID d) < 8
         then devicesList_render marshal w result = Inl SliceBoundsOutOfRange
         else \<exists>w'. devicesList_render marshal w result = Inr (None, w')"
  using assms
  by (auto simp add: devicesList_render_def Let_def rows_of [of device_row, OF device_row_cases])

lemma documentsList_cases:
  assumes "\<not> IsJSON w"
  shows "if \<exists>d \<in> set (doc_Data result). length (doc_ID d) < 8
         then documentsList_render marshal w result = Inl SliceBoundsOutOfRange
         else \<exists>w'. documentsList_render marshal w result = Inr (None, w')"
  using assms
  by (auto simp add: documentsList_render_def Let_def
      rows_of [of document_row, OF document_row_cases])

lemma search_cases:
  assumes "\<not> IsJSON w"
  shows "if \<exists>r \<in> set (Results results). length (sr_DeviceID r) < 8
         then search_render marshal outputFormat w results = Inl SliceBoundsOutOfRange
         else \<exists>w'. search_render marshal outputFormat w results = Inr (None, w')"
proof (cases "\<exists>r \<in> set (Results results). length (sr_DeviceID r) < 8")
  case True
  then show ?thesis using assms
    by (auto simp add: search_render_def Let_def rows_of [of search_row, OF search_row_cases])
next
  case False
  then have "\<forall>r \<in> set (Results results). 8 \<le> length (sr_DeviceID r)" by auto
  from search_snippets_ok [OF this]
  have "\<exists>w'. search_snippets 0 (Results results) w0 = Inr w'" for w0
    by blast
  then show ?thesis using False assms
    apply (simp add: search_render_def Let_def rows_of [of search_row, OF search_row_cases])
    by (metis (no_types, lifting) old.sum.simps(6))
qed

lemma documentsGet_cases:
  assumes "\<not> IsJSON w"
  shows "if length (doc_Checksum doc) < 16
         then documentsGet_render marshal w doc = Inl SliceBoundsOutOfRange
         else \<exists>w'. documentsGet_render marshal w doc = Inr (None, w')"
  using assms FormatSize_total [of "doc_SizeBytes doc"]
  by (auto simp add: documentsGet_render_def Let_def slice_prefix)

lemma json_never_panics:
  assumes "IsJSON w"
  shows "\<exists>r. devicesList_render m1 w r1 = Inr r" "\<exists>r. documentsList_render m2 w r2 = Inr r"
    "\<exists>r. search_render m3 f w r3 = Inr r" "\<exists>r. documentsGet_render m4 w r4 = Inr r"
  using assms
  by (auto simp add: devicesList_render_def documentsList_render_def search_render_def
      documentsGet_render_def ret_JSON_def split: prod.splits)

text \<open>
  Claim C9. When the Writer is not a JSON Writer, each of the four commands panics on the
  slice exactly when the response holds what is too short: a device, a search result or a
  document with an identifier of fewer than 8 bytes, or, for \<open>documents get\<close>, a checksum
  of fewer than 16 bytes. Otherwise the command returns without an error. The panic is
  not an error value: the command does not return.
\<close>

theorem short_identifier_panics:
  assumes "\<not> IsJSON w"
  shows "(if \<exists>d \<in> set (dev_Data devices). length (dev_ID d) < 8
          then devicesList_render m1 w devices = Inl SliceBoundsOutOfRange
          else \<exists>w'. devicesList_render m1 w devices = Inr (None, w'))
       \<and> (if \<exists>r \<in> set (Results results). length (sr_DeviceID r) < 8
          then search_render m2 outputFormat w results = Inl SliceBoundsOutOfRange
          else \<exists>w'. search_render m2 outputFormat w results = Inr (None, w'))
       \<and> (if \<exists>d \<in> set (doc_Data documents). length (doc_ID d) < 8
          then documentsList_render m3 w documents = Inl SliceBoundsOutOfRange
          else \<exists>w'. documentsList_render m3 w documents = Inr (None, w'))
       \<and> (if length (doc_Checksum doc) < 16
          then documentsGet_render m4 w doc = Inl SliceBoundsOutOfRange
          else \<exists>w'. documentsGet_render m4 w doc = Inr (None, w'))"
  using devicesList_cases [OF assms, of devices m1] search_cases [OF assms, of results m2 outputFormat]
    documentsList_cases [OF assms, of documents m3] documentsGet_cases [OF assms, of doc m4]
  by blast

theorem short_identifier_panics_witness:
  "\<not> IsJSON (New id ''table'')
   \<and> devicesList_render marshal_none (New id ''table'')
        \<lparr>dev_Data = [short_device], dev_Total = 1, dev_Limit = 50, dev_Offset = 0\<rparr>
       = Inl SliceBoundsOutOfRange
   \<and> (\<exists>w'. search_render marshal_none ''table'' (New id ''table'') esp32_response = Inr (None, w'))
   \<and> (\<exists>w'. documentsList_render marshal_none (New id ''table'')
        \<lparr>doc_Data = [short_document], doc_Total = 1, doc_Limit = 50, doc_Offset = 0\<rparr>
       = Inr (None, w'))
   \<and> documentsGet_render marshal_none (New id ''table'') short_document
       = Inl SliceBoundsOutOfRange"
proof -
  have nj: "\<not> IsJSON (New id ''table'')" by (simp add: lower_eval)
  show ?thesis
    using nj short_identifier_panics [OF nj,
        of "\<lparr>dev_Data = [short_device], dev_Total = 1, dev_Limit = 50, dev_Offset = 0\<rparr>"
           marshal_none esp32_response marshal_none "''table''"
           "\<lparr>doc_Data = [short_document], doc_Total = 1, doc_Limit = 50, doc_Offset = 0\<rparr>"
           marshal_none short_document marshal_none]
    by (simp add: short_device_def short_document_def esp32_response_def esp32_def)
qed

subsection \<open>The table of one search result\<close>

lemma replicate_num: "replicate (numeral k) x = x # replicate (pred_numeral k) x"
  by (simp add: numeral_eq_Suc)

lemmas tw_eval = tw_Write_def write_byte_def tw_init_def terminateCell_def
  updateWidth_def add_byte_def flush_def mark_last_def format.simps writeLines_def in_column_def
  column_width_def padding_def endEscape_def byte_def Let_def replicate_num

lemma score_value: "round_float64 False 92 100 = Finite False 8286623314361713 (- 53)"
  by (simp add: round_float64_def bitlen.simps rhe_div_def Let_def)

lemma score_text: "fmt_f 2 (Finite False 8286623314361713 (- 53)) = ''0.92''"
  apply (simp only: fmt_f_def float64.case Let_def)
  apply (simp add: rhe_div_def Let_def)
  apply (simp add: digits.simps digit_char_def)
  done

lemma esp32_row:
  "search_row esp32 = Inr [''abc123ef'', ''ESP32 Dev Board'', ''hardware'', ''dev-boards'', ''0.92'']"
proof -
  have s: "slice (sr_DeviceID esp32) 0 8 = Inr ''abc123ef''"
    by (simp add: esp32_def slice_def)
  have t: "Truncate (sr_Name esp32) 40 = Inr ''ESP32 Dev Board''"
    by (simp add: esp32_def Truncate_def)
  have f: "fmt_f 2 (sr_Score esp32) = ''0.92''"
    by (simp add: esp32_def score_value score_text)
  have d: "sr_Domain esp32 = ''hardware''" "sr_Type esp32 = ''dev-boards''"
    by (simp_all add: esp32_def)
  show ?thesis by (simp only: search_row_def s t f d sum.case)
qed

lemma esp32_table:
  "Table v [''ID'', ''NAME'', ''DOMAIN'', ''TYPE'', ''SCORE'']
     [[''abc123ef'', ''ESP32 Dev Board'', ''hardware'', ''dev-boards'', ''0.92'']]
   = v\<lparr>out := out v @ ''ID  NAME  DOMAIN  TYPE  SCORE'' @ [CHR 0x0A]
     @ ''-----------------------------'' @ [CHR 0x0A]
     @ ''abc123ef  ESP32 Dev Board  hardware  dev-boards  0.92'' @ [CHR 0x0A]\<rparr>"
  apply (simp only: Table_def Let_def foldl_Cons foldl_Nil)
  apply (simp add: tw_eval)
  done

lemma esp32_snippets:
  "search_snippets 0 [esp32] v
     = Inr (v\<lparr>out := out v @ [CHR 0x0A] @ ''[abc123ef] ESP32 Dev Board'' @ [CHR 0x0A]
                 @ ''  ...'' @ [CHR 0x0A]\<rparr>)"
  by (simp add: esp32_def slice_def Truncate_def Text_def)

lemma esp32_rendered:
  assumes "Format w = FormatTable"
  shows \<open>search_render marshal outputFormat w esp32_response =
    Inr (None, w\<lparr>out := out w
      @ ''Found 1 results for "esp32":'' @ [CHR 0x0A] @ [CHR 0x0A]
      @ ''ID  NAME  DOMAIN  TYPE  SCORE'' @ [CHR 0x0A]
      @ ''-----------------------------'' @ [CHR 0x0A]
      @ ''abc123ef  ESP32 Dev Board  hardware  dev-boards  0.92'' @ [CHR 0x0A]
      @ (if outputFormat \<noteq> ''table''
         then [CHR 0x0A] @ ''--- Snippets ---'' @ [CHR 0x0A]
              @ [CHR 0x0A] @ ''[abc123ef] ESP32 Dev Board'' @ [CHR 0x0A]
              @ ''  ...'' @ [CHR 0x0A]
         else [])\<rparr>)\<close>
proof -
  have j: "IsJSON w = False"
    using assms by (simp add: IsJSON_def Format_def FormatJSON_def FormatTable_def)
  have res: "Results esp32_response = [esp32]" by (simp add: esp32_response_def)
  have len: "(length [esp32] = 0) = False" "(0 < length [esp32]) = True"
    by simp_all
  have rows: "build_rows search_row [esp32]
      = Inr [[''abc123ef'', ''ESP32 Dev Board'', ''hardware'', ''dev-boards'', ''0.92'']]"
    by (simp only: build_rows.simps esp32_row sum.case)
  have found: \<open>''Found '' @ itoa (sint (sr_Total esp32_response)) @ '' results for ''
                 @ [CHR 0x22] @ Query esp32_response @ [CHR 0x22] @ '':'' @ [CHR 0x0A, CHR 0x0A]
      = ''Found 1 results for "esp32":'' @ [CHR 0x0A] @ [CHR 0x0A]\<close>
    by (simp add: esp32_response_def itoa_def digits.simps digit_char_def)
  show ?thesis
    apply (simp only: search_render_def Let_def j res len rows found esp32_table esp32_snippets
        if_False if_True sum.case simp_thms)
    apply (simp add: Text_def Println_def)
    done
qed

subsection \<open>From the bytes of the response to the table\<close>

lemma esp32_parsed:
  \<open>parse_json esp32_json =
     Some (JObject [(''results'', JArray [JObject [(''device_id'', JString ''abc123ef...''),
       (''name'', JString ''ESP32 Dev Board''), (''domain'', JString ''hardware''),
       (''type'', JString ''dev-boards''), (''score'', JNumber ''0.92''),
       (''snippet'', JString ''...'')]]), (''total'', JNumber ''1''),
       (''query'', JString ''esp32'')])\<close>
  by (simp add: esp32_json_def parse_json_def isSpace_def lit_char_def literal_def)

lemma score_parsed: "ParseFloat ''0.92'' = Some (Finite False 8286623314361713 (- 53))"
  apply (simp only: ParseFloat_def Let_def)
  apply (simp add: is_digit_def in_range_def byte_def digits_value_def score_value)
  done

lemma total_parsed: "ParseInt ''1'' = Some 1"
  by (simp add: ParseInt_def is_digit_def in_range_def byte_def digits_value_def Let_def)

lemmas store_eval = member_SearchResult_def member_SearchResponse_def find_field_def
  field_matches_def fold_rune_def first_error_def byte_def zero_SearchResult_def
  zero_SearchResponse_def score_parsed total_parsed

lemma esp32_unmarshalled: "unmarshal_SearchResponse esp32_json = Inr esp32_response"
  apply (simp only: unmarshal_SearchResponse_def esp32_parsed option.case json.case
      foldl_Cons foldl_Nil)
  apply (simp add: store_eval esp32_response_def esp32_def score_value)
  done

lemma esp32_scanned:
  "readValue \<lparr>blocks = [esp32_json], final = None\<rparr>
     = (Inr esp32_json, \<lparr>blocks = [], final = None\<rparr>)"
  by (simp add: esp32_json_def scan_eval)

lemma esp32_received:
  "snd (Search (server 200 [] [esp32_json]) unmarshal_SearchResponse c query limit)
     = Inr esp32_response"
  by (simp add: Search_def get_def server_def NewRequest_def Decode_def esp32_scanned
      esp32_unmarshalled)

text \<open>
  The snippets section only appends to the output when every identifier has 8 bytes.
\<close>

lemma snippets_append:
  "\<forall>r \<in> set rs. 8 \<le> length (sr_DeviceID r) \<Longrightarrow>
   \<exists>tail. search_snippets i rs v = Inr (v\<lparr>out := out v @ tail\<rparr>)"
proof (induction rs arbitrary: i v)
  case Nil
  show ?case by (auto intro: exI [of _ "[]"])
next
  case (Cons r rs)
  obtain t where t: "Truncate (sr_Snippet r) 200 = Inr t"
    using Truncate_total [of 200 "sr_Snippet r"] by auto
  have id8: "slice (sr_DeviceID r) 0 8 = Inr (take 8 (sr_DeviceID r))"
    using Cons.prems by (simp add: slice_prefix)
  have rest: "\<forall>r \<in> set rs. 8 \<le> length (sr_DeviceID r)" using Cons.prems by simp
  show ?case
  proof (cases "3 \<le> i")
    case True
    then show ?thesis by (auto intro: exI [of _ "[]"])
  next
    case False
    show ?thesis
    proof (cases "sr_Snippet r = []")
      case True
      from Cons.IH [OF rest, of "Suc i" v] show ?thesis using True False by simp
    next
      case ne: False
      let ?v = "Text (Text v ([CHR 0x0A] @ ''['' @ take 8 (sr_DeviceID r) @ ''] '' @ sr_Name r @ [CHR 0x0A]))
                       (''  '' @ t @ [CHR 0x0A])"
      from Cons.IH [OF rest, of "Suc i" ?v] obtain tail
        where "search_snippets (Suc i) rs ?v = Inr (?v\<lparr>out := out ?v @ tail\<rparr>)" by blast
      then show ?thesis using ne False t id8
        by (intro exI [of _ "[CHR 0x0A] @ ''['' @ take 8 (sr_DeviceID r) @ ''] '' @ sr_Name r
              @ [CHR 0x0A] @ ''  '' @ t @ [CHR 0x0A] @ tail"])
          (simp add: Text_def)
    qed
  qed
qed

text \<open>
  The table of one result does not depend on the rest of the identifier, on the path or on
  the snippet: the first cell is the first 8 bytes of the identifier.
\<close>

lemma one_result_rendered:
  assumes "Format w = FormatTable"
  shows \<open>\<exists>tail. search_render marshal outputFormat w
      \<lparr>Results = [\<lparr>sr_DeviceID = ''abc123ef'' @ suffix, sr_Name = ''ESP32 Dev Board'',
                   sr_Domain = ''hardware'', sr_Type = ''dev-boards'', sr_Path = path,
                   sr_Score = round_float64 False 92 100, sr_Snippet = snippet\<rparr>],
       sr_Total = 1, Query = ''esp32''\<rparr> =
    Inr (None, w\<lparr>out := out w
      @ ''Found 1 results for "esp32":'' @ [CHR 0x0A] @ [CHR 0x0A]
      @ ''ID  NAME  DOMAIN  TYPE  SCORE'' @ [CHR 0x0A]
      @ ''-----------------------------'' @ [CHR 0x0A]
      @ ''abc123ef  ESP32 Dev Board  hardware  dev-boards  0.92'' @ [CHR 0x0A]
      @ tail\<rparr>) \<and> (outputFormat = ''table'' \<longrightarrow> tail = [])\<close>
proof -
  let ?r = "\<lparr>sr_DeviceID = ''abc123ef'' @ suffix, sr_Name = ''ESP32 Dev Board'',
                   sr_Domain = ''hardware'', sr_Type = ''dev-boards'', sr_Path = path,
                   sr_Score = round_float64 False 92 100, sr_Snippet = snippet\<rparr>"
  let ?resp = "\<lparr>Results = [?r], sr_Total = 1, Query = ''esp32''\<rparr>"
  have j: "IsJSON w = False"
    using assms by (simp add: IsJSON_def Format_def FormatJSON_def FormatTable_def)
  have row: "search_row ?r = Inr [''abc123ef'', ''ESP32 Dev Board'', ''hardware'', ''dev-boards'', ''0.92'']"
  proof -
    have s: "slice (sr_DeviceID ?r) 0 8 = Inr ''abc123ef''" by (simp add: slice_def)
    have t: "Truncate (sr_Name ?r) 40 = Inr ''ESP32 Dev Board''" by (simp add: Truncate_def)
    have f: "fmt_f 2 (sr_Score ?r) = ''0.92''" by (simp add: score_value score_text)
    have d: "sr_Domain ?r = ''hardware''" "sr_Type ?r = ''dev-boards''" by simp_all
    show ?thesis by (simp only: search_row_def s t f d sum.case)
  qed
  have res: "Results ?resp = [?r]" by simp
  have len: "(length [?r] = 0) = False" "(0 < length [?r]) = True" by simp_all
  have rows: "build_rows search_row [?r]
      = Inr [[''abc123ef'', ''ESP32 Dev Board'', ''hardware'', ''dev-boards'', ''0.92'']]"
    by (simp only: build_rows.simps row sum.case)
  have found: \<open>''Found '' @ itoa (sint (sr_Total ?resp)) @ '' results for ''
                 @ [CHR 0x22] @ Query ?resp @ [CHR 0x22] @ '':'' @ [CHR 0x0A, CHR 0x0A]
      = ''Found 1 results for "esp32":'' @ [CHR 0x0A] @ [CHR 0x0A]\<close>
    by (simp add: itoa_def digits.simps digit_char_def)
  have "\<forall>r \<in> set [?r]. 8 \<le> length (sr_DeviceID r)" by simp
  from snippets_append [OF this]
  have sn: "\<exists>tail. search_snippets 0 [?r] v = Inr (v\<lparr>out := out v @ tail\<rparr>)" for v by blast
  show ?thesis
  proof (cases "outputFormat = ''table''")
    case True
    show ?thesis
      apply (rule exI [of _ "[]"])
      apply (simp only: search_render_def Let_def j res len rows found esp32_table True
        if_False if_True sum.case simp_thms)
      apply (simp add: Text_def)
      done
  next
    case False
    let ?w2 = \<open>Println (Table (Text w (''Found 1 results for "esp32":'' @ [CHR 0x0A] @ [CHR 0x0A]))
           [''ID'', ''NAME'', ''DOMAIN'', ''TYPE'', ''SCORE'']
           [[''abc123ef'', ''ESP32 Dev Board'', ''hardware'', ''dev-boards'', ''0.92'']])
         ([CHR 0x0A] @ ''--- Snippets ---'')\<close>
    obtain tail where tail: "search_snippets 0 [?r] ?w2 = Inr (?w2\<lparr>out := out ?w2 @ tail\<rparr>)"
      using sn by blast
    show ?thesis
      apply (rule exI [of _ "[CHR 0x0A] @ ''--- Snippets ---'' @ [CHR 0x0A] @ tail"])
      apply (simp only: search_render_def Let_def j res len rows found False
        if_False if_True sum.case simp_thms tail)
      apply (simp add: Text_def Println_def esp32_table False)
      done
  qed
qed

text \<open>
  Claim C8. The server answers the search with the JSON text of the scenario; the client
  decodes it, and in table mode the command prints the line
  \<open>Found 1 results for "esp32":\<close>, an empty line, the header row
  \<open>ID  NAME  DOMAIN  TYPE  SCORE\<close>, a rule of 29 hyphens, and one data row, whose first
  cell is \<open>abc123ef\<close>, the first 8 bytes of the identifier, and whose last cell is
  \<open>0.92\<close>. The rule has no tab in it, so the header row is aligned by itself: its cells
  are two spaces apart. When the flag \<open>--output\<close> is not the word \<open>table\<close> (table mode
  then comes from the configuration), the snippets follow the table.
\<close>

theorem search_table_of_one_result:
  assumes "Format w = FormatTable"
  shows \<open>searchCmd (server 200 [] [esp32_json]) unmarshal_SearchResponse marshal c w
           outputFormat searchLimit args =
    Inr (None, w\<lparr>out := out w
      @ ''Found 1 results for "esp32":'' @ [CHR 0x0A] @ [CHR 0x0A]
      @ ''ID  NAME  DOMAIN  TYPE  SCORE'' @ [CHR 0x0A]
      @ ''-----------------------------'' @ [CHR 0x0A]
      @ ''abc123ef  ESP32 Dev Board  hardware  dev-boards  0.92'' @ [CHR 0x0A]
      @ (if outputFormat \<noteq> ''table''
         then [CHR 0x0A] @ ''--- Snippets ---'' @ [CHR 0x0A]
              @ [CHR 0x0A] @ ''[abc123ef] ESP32 Dev Board'' @ [CHR 0x0A]
              @ ''  ...'' @ [CHR 0x0A]
         else [])\<rparr>)\<close>
  unfolding searchCmd_def esp32_received sum.case
  by (rule esp32_rendered [OF assms])

theorem search_table_of_one_result_witness:
  \<open>Format (New id ''table'') = FormatTable
   \<and> searchCmd (server 200 [] [esp32_json]) unmarshal_SearchResponse marshal_none local_client
        (New id ''table'') ''table'' 20 [''esp32''] =
       Inr (None, \<lparr>format_of = ''table'', out =
         ''Found 1 results for "esp32":'' @ [CHR 0x0A] @ [CHR 0x0A]
         @ ''ID  NAME  DOMAIN  TYPE  SCORE'' @ [CHR 0x0A]
         @ ''-----------------------------'' @ [CHR 0x0A]
         @ ''abc123ef  ESP32 Dev Board  hardware  dev-boards  0.92'' @ [CHR 0x0A]\<rparr>)\<close>
proof -
  have t: "Format (New id ''table'') = FormatTable" by (simp add: lower_eval)
  show ?thesis
    using t search_table_of_one_result [OF t, of marshal_none local_client "''table''" 20
        "[''esp32'']"]
    by (simp add: New_table)
qed

end
